theory Spec2Isabelle
  imports Main "HOL-Library.Word" "HOL-Library.Sublist"
begin

section \<open>Tweetcord: the bot's entry module (bot.py)\<close>

text \<open>
  The module defines the status page handler \<open>handle_web\<close>, the web server start-up
  \<open>start_web_server\<close>, the bot task \<open>run_bot\<close>, the start-up event handler
  \<open>on_ready\<close>, the owner-only commands, the two error handlers and \<open>main\<close>.

  Every coroutine is embedded as a function from the state of the local machine to an
  outcome, the new state and the list of effects it performed, in the order it performed
  them. Functions imported from other modules of the repository or from libraries are
  parameters, collected in the record \<open>deps\<close>.
\<close>

subsection \<open>Values, exceptions, outcomes\<close>

type_synonym bytes = "8 word list"

text \<open>Values of the \<open>configs\<close> dictionary, with Python's truth test.\<close>

datatype pyval = VNone | VBool bool | VInt int | VStr string

fun truthy :: "pyval \<Rightarrow> bool" where
  "truthy VNone = False"
| "truthy (VBool b) = b"
| "truthy (VInt i) = (i \<noteq> 0)"
| "truthy (VStr s) = (s \<noteq> [])"

type_synonym configs = "string \<rightharpoonup> pyval"

text \<open>
  Exceptions: the ones the module's own expressions raise (\<open>[...][0]\<close> on an empty list,
  \<open>os.path.join(None, ...)\<close>, \<open>int\<close> on a string that is no number, a missing dictionary
  key, \<open>open\<close> on a path that cannot be written), and \<open>External\<close> for whatever an
  imported function raises.
\<close>

datatype pyexc =
  IndexError | TypeError | ValueError string | KeyError string | OSError string | External string

text \<open>
  A call returns a value, raises, or replaces the process image (\<open>os.execv\<close>): after
  \<open>Exec\<close> nothing of the old program runs any more, not even a \<open>finally\<close> block.
\<close>

datatype 'a outcome = Ret 'a | Raise pyexc | Exec string "string list"

datatype level = INFO | WARNING

datatype 'r event =
    Log level string
  | Sleep nat
  | InitDb
  | CheckUpgrade
  | CheckEnv
  | LoadDotenv
  | CheckConfigs
  | CheckDb
  | Repair "'r list"
  | UpdatePresence
  | SetTreeOnError
  | ListDir string
  | LoadExtension string
  | TreeSync
  | Execv string "string list"
  | AttachmentRead string
  | FileWrite string
  | Send string
  | SendEphemeral string
  | Delete nat nat
  | AddGet string
  | RunnerSetup
  | SiteStart string int
  | RunnerCleanup
  | SetupLogging
  | BotEnter
  | BotStart "string option"
  | BotExit

subsection \<open>The local machine\<close>

text \<open>
  \<open>environ\<close> is \<open>os.environ\<close>, \<open>files\<close> the regular files by path, \<open>unwritable\<close> the paths
  at which \<open>open(path, 'wb')\<close> raises, \<open>executable\<close> and \<open>argv\<close> are \<open>sys.executable\<close> and
  \<open>sys.argv\<close>.
\<close>

record machine =
  environ :: "string \<rightharpoonup> string"
  files :: "string \<rightharpoonup> bytes"
  unwritable :: "string set"
  executable :: string
  argv :: "string list"

type_synonym 'a ext = "machine \<Rightarrow> 'a outcome \<times> machine"

type_synonym ('r, 'a) act = "machine \<Rightarrow> 'a outcome \<times> machine \<times> 'r event list"

definition ret :: "'a \<Rightarrow> ('r, 'a) act" where
  "ret x = (\<lambda>m. (Ret x, m, []))"

definition raise :: "pyexc \<Rightarrow> ('r, 'a) act" where
  "raise e = (\<lambda>m. (Raise e, m, []))"

definition emit :: "'r event \<Rightarrow> ('r, unit) act" where
  "emit ev = (\<lambda>m. (Ret (), m, [ev]))"

text \<open>Sequencing: the second part runs only when the first returned.\<close>

definition bnd :: "('r, 'a) act \<Rightarrow> ('a \<Rightarrow> ('r, 'b) act) \<Rightarrow> ('r, 'b) act" where
  "bnd f g = (\<lambda>m. case f m of
       (Ret x, m1, e1) \<Rightarrow> (case g x m1 of (r, m2, e2) \<Rightarrow> (r, m2, e1 @ e2))
     | (Raise e, m1, e1) \<Rightarrow> (Raise e, m1, e1)
     | (Exec p a, m1, e1) \<Rightarrow> (Exec p a, m1, e1))"

text \<open>A call of an imported function: the call is recorded, then its outcome is the call's.\<close>

definition call :: "'r event \<Rightarrow> 'a ext \<Rightarrow> ('r, 'a) act" where
  "call ev f = (\<lambda>m. case f m of (r, m1) \<Rightarrow> (r, m1, [ev]))"

text \<open>
  \<open>try: body finally: fin\<close>. The \<open>finally\<close> block runs when the body returned and when it
  raised; the body's exception is raised again afterwards unless the block itself raises.
  When the body replaced the process image the block does not run.
\<close>

definition try_finally :: "('r, 'a) act \<Rightarrow> ('r, unit) act \<Rightarrow> ('r, 'a) act" where
  "try_finally body fin = (\<lambda>m. case body m of
       (Exec p a, m1, e1) \<Rightarrow> (Exec p a, m1, e1)
     | (r, m1, e1) \<Rightarrow> (case fin m1 of
           (Ret u, m2, e2) \<Rightarrow> (r, m2, e1 @ e2)
         | (Raise e, m2, e2) \<Rightarrow> (Raise e, m2, e1 @ e2)
         | (Exec p a, m2, e2) \<Rightarrow> (Exec p a, m2, e1 @ e2)))"

definition outcome_of :: "'a outcome \<times> machine \<times> 'r event list \<Rightarrow> 'a outcome" where
  "outcome_of t = fst t"

definition machine_of :: "'a outcome \<times> machine \<times> 'r event list \<Rightarrow> machine" where
  "machine_of t = fst (snd t)"

definition events_of :: "'a outcome \<times> machine \<times> 'r event list \<Rightarrow> 'r event list" where
  "events_of t = snd (snd t)"

subsection \<open>Paths and strings\<close>

text \<open>\<open>os.path.join(a, b)\<close> on POSIX, for two components.\<close>

definition path_join :: "string \<Rightarrow> string \<Rightarrow> string" where
  "path_join a b =
     (if b \<noteq> [] \<and> hd b = CHR ''/'' then b
      else if a = [] \<or> last a = CHR ''/'' then a @ b
      else a @ ''/'' @ b)"

definition isfile :: "machine \<Rightarrow> string \<Rightarrow> bool" where
  "isfile m p = (files m p \<noteq> None)"

text \<open>
  \<open>os.path.join(os.getenv('DATA_PATH'), 'tracked_accounts.db')\<close>: \<open>os.getenv\<close> gives \<open>None\<close>
  for an unset variable, and \<open>os.path.join(None, ...)\<close> raises \<open>TypeError\<close>.
\<close>

definition store_path :: "('r, string) act" where
  "store_path = (\<lambda>m. case environ m ''DATA_PATH'' of
       None \<Rightarrow> raise TypeError m
     | Some d \<Rightarrow> ret (path_join d ''tracked_accounts.db'') m)"

text \<open>\<open>s.endswith(suf)\<close>, \<open>s[-3:]\<close> and \<open>s[:-3]\<close>.\<close>

definition endswith :: "string \<Rightarrow> string \<Rightarrow> bool" where
  "endswith s suf = (length suf \<le> length s \<and> drop (length s - length suf) s = suf)"

definition last3 :: "string \<Rightarrow> string" where
  "last3 s = drop (length s - 3) s"

definition drop_last3 :: "string \<Rightarrow> string" where
  "drop_last3 s = take (length s - 3) s"

text \<open>\<open>str(n)\<close> for a natural number.\<close>

definition digit :: "nat \<Rightarrow> char" where
  "digit d = ''0123456789'' ! d"

fun str_nat :: "nat \<Rightarrow> string" where
  "str_nat n = (if n < 10 then [digit n] else str_nat (n div 10) @ [digit (n mod 10)])"

declare str_nat.simps [simp del]

subsection \<open>Imported functions\<close>

text \<open>
  \<open>'r\<close> is the type of the entries \<open>check_db\<close> returns. \<open>bot_user\<close> is \<open>str(bot.user)\<close>.
\<close>

record 'r deps =
  init_db :: "unit ext"
  check_upgrade :: "unit ext"
  check_env :: "bool ext"
  load_dotenv :: "unit ext"
  check_configs :: "configs \<Rightarrow> bool ext"
  check_db :: "'r list ext"
  auto_repair_mismatched_clients :: "'r list \<Rightarrow> unit ext"
  update_presence :: "unit ext"
  listdir :: "string \<Rightarrow> string list ext"
  load_extension :: "string \<Rightarrow> unit ext"
  tree_sync :: "string list ext"
  bot_user :: string

subsection \<open>on_ready\<close>

definition msg_env :: string where
  "msg_env = ''incomplete environment variables detected, will retry in 30 seconds''"

definition msg_configs :: string where
  "msg_configs = ''incomplete configs file detected, will retry in 30 seconds''"

definition msg_detected :: string where
  "msg_detected = ''detected environment variable undefined client name in database''"

definition msg_replaced :: string where
  "msg_replaced = ''automatically replace mismatched client names with the first client name in the environment variable, use the sync slash command in discord to ensure notifications are turned on''"

definition msg_set_option :: string where
  "msg_set_option = ''set auto_repair_mismatched_clients to true in configs to automatically fix this error or manually update the database or environment variables''"

definition msg_passed :: string where
  "msg_passed = ''database check passed''"

text \<open>Lines 78-79: the store is created when its file is missing.\<close>

definition store_stage :: "'r deps \<Rightarrow> ('r, unit) act" where
  "store_stage D =
     bnd store_path (\<lambda>p m.
       if \<not> isfile m p then call InitDb (init_db D) m else ret () m)"

text \<open>Lines 83-86.\<close>

definition env_stage :: "'r deps \<Rightarrow> ('r, unit) act" where
  "env_stage D =
     bnd (call CheckEnv (check_env D)) (\<lambda>ok.
       if \<not> ok then
         bnd (emit (Log WARNING msg_env)) (\<lambda>_.
         bnd (emit (Sleep 30)) (\<lambda>_.
         call LoadDotenv (load_dotenv D)))
       else ret ())"

text \<open>\<open>os.execv(sys.executable, ['python'] + sys.argv)\<close>.\<close>

definition execv :: "('r, unit) act" where
  "execv = (\<lambda>m. (Exec (executable m) (''python'' # argv m), m,
                  [Execv (executable m) (''python'' # argv m)]))"

text \<open>Lines 88-91.\<close>

definition configs_stage :: "'r deps \<Rightarrow> configs \<Rightarrow> ('r, unit) act" where
  "configs_stage D cfg =
     bnd (call CheckConfigs (check_configs D cfg)) (\<lambda>ok.
       if \<not> ok then
         bnd (emit (Log WARNING msg_configs)) (\<lambda>_.
         bnd (emit (Sleep 30)) (\<lambda>_.
         execv))
       else ret ())"

text \<open>\<open>configs[key]\<close>.\<close>

definition config_get :: "configs \<Rightarrow> string \<Rightarrow> ('r, pyval) act" where
  "config_get cfg k = (case cfg k of None \<Rightarrow> raise (KeyError k) | Some v \<Rightarrow> ret v)"

text \<open>Lines 93-102.\<close>

definition db_stage :: "'r deps \<Rightarrow> configs \<Rightarrow> ('r, unit) act" where
  "db_stage D cfg =
     bnd (call CheckDb (check_db D)) (\<lambda>invalid_clients.
       if invalid_clients \<noteq> [] then
         bnd (emit (Log WARNING msg_detected)) (\<lambda>_.
         bnd (config_get cfg ''auto_repair_mismatched_clients'') (\<lambda>v.
           if truthy v then
             bnd (call (Repair invalid_clients)
                    (auto_repair_mismatched_clients D invalid_clients)) (\<lambda>_.
             emit (Log INFO msg_replaced))
           else emit (Log WARNING msg_set_option)))
       else emit (Log INFO msg_passed))"

text \<open>Lines 107-109: the loop over the directory listing.\<close>

definition extension_name :: "string \<Rightarrow> string" where
  "extension_name filename = ''cogs.'' @ drop_last3 filename"

fun load_cogs :: "'r deps \<Rightarrow> string list \<Rightarrow> ('r, unit) act" where
  "load_cogs D [] = ret ()"
| "load_cogs D (filename # rest) =
     bnd (if endswith filename ''.py''
          then call (LoadExtension (extension_name filename))
                 (load_extension D (extension_name filename))
          else ret ()) (\<lambda>_.
     load_cogs D rest)"

text \<open>Lines 106-112.\<close>

definition extensions_stage :: "'r deps \<Rightarrow> ('r, unit) act" where
  "extensions_stage D =
     bnd (emit SetTreeOnError) (\<lambda>_.
     bnd (call (ListDir ''./cogs'') (listdir D ''./cogs'')) (\<lambda>filenames.
     bnd (load_cogs D filenames) (\<lambda>_.
     bnd (emit (Log INFO (bot_user D @ '' is online''))) (\<lambda>_.
     bnd (call TreeSync (tree_sync D)) (\<lambda>slash.
     emit (Log INFO (''synced '' @ str_nat (length slash) @ '' slash commands'')))))))"

definition on_ready :: "'r deps \<Rightarrow> configs \<Rightarrow> ('r, unit) act" where
  "on_ready D cfg =
     bnd (store_stage D) (\<lambda>_.
     bnd (call CheckUpgrade (check_upgrade D)) (\<lambda>_.
     bnd (env_stage D) (\<lambda>_.
     bnd (configs_stage D cfg) (\<lambda>_.
     bnd (db_stage D cfg) (\<lambda>_.
     bnd (call UpdatePresence (update_presence D)) (\<lambda>_.
     extensions_stage D))))))"

subsection \<open>The status page\<close>

record request =
  req_method :: string
  req_path :: string

record response =
  resp_text :: string
  content_type :: string

text \<open>
  The lines of the literal \<open>html_content\<close>, each preceded in the literal by a newline; the
  check mark of the source is written as its three UTF-8 bytes.
\<close>

definition html_lines :: "string list" where
  \<open>html_lines =
    [''    <!DOCTYPE html>'',
     ''    <html>'',
     ''        <head>'',
     ''            <title>Discord Bot Status</title>'',
     ''            <style>'',
     ''                body {'',
     ''                    font-family: Arial, sans-serif;'',
     ''                    margin: 40px;'',
     ''                    line-height: 1.6;'',
     ''                    background: #f5f5f5;'',
     ''                }'',
     ''                .container {'',
     ''                    background: white;'',
     ''                    padding: 20px;'',
     ''                    border-radius: 8px;'',
     ''                    box-shadow: 0 2px 4px rgba(0,0,0,0.1);'',
     ''                    max-width: 600px;'',
     ''                    margin: 0 auto;'',
     ''                }'',
     ''                h1 { color: #5865F2; }'',
     ''                .status { color: #43B581; }'',
     ''            </style>'',
     ''        </head>'',
     ''        <body>'',
     ''            <div class="container">'',
     ''                <h1>Discord Bot Status</h1>'',
     ''                <p class="status">'' @ [CHR 0xE2, CHR 0x9C, CHR 0x85] @ '' Bot is running!</p>'',
     ''                <p>This is the status page for the Discord bot.</p>'',
     ''            </div>'',
     ''        </body>'',
     ''    </html>'',
     ''    '']\<close>

definition html_content :: string where
  "html_content = concat (map (\<lambda>l. CHR 0x0A # l) html_lines)"

definition handle_web :: "request \<Rightarrow> ('r, response) act" where
  "handle_web request = ret \<lparr>resp_text = html_content, content_type = ''text/html''\<rparr>"

subsection \<open>The supervisor: start_web_server, run_bot, main\<close>

datatype runner = AppRunner

text \<open>
  \<open>int_of_string\<close> is Python's \<open>int\<close> on a string (\<open>None\<close> where it raises \<open>ValueError\<close>);
  the other fields are the methods of the aiohttp runner and site and of the bot client.
  \<open>bot_start\<close> runs the client, and with it \<open>on_ready\<close>, until it stops.
\<close>

record supervisor_deps =
  int_of_string :: "string \<Rightarrow> int option"
  runner_setup :: "unit ext"
  site_start :: "string \<Rightarrow> int \<Rightarrow> unit ext"
  runner_cleanup :: "runner \<Rightarrow> unit ext"
  bot_aenter :: "unit ext"
  bot_start :: "string option \<Rightarrow> unit ext"
  bot_aexit :: "unit ext"

definition str_int :: "int \<Rightarrow> string" where
  "str_int i = (if i < 0 then ''-'' @ str_nat (nat (- i)) else str_nat (nat i))"

text \<open>\<open>int(os.environ.get('PORT', 10000))\<close>.\<close>

definition get_port :: "supervisor_deps \<Rightarrow> ('r, int) act" where
  "get_port S = (\<lambda>m. case environ m ''PORT'' of
       None \<Rightarrow> ret 10000 m
     | Some s \<Rightarrow> (case int_of_string S s of
           None \<Rightarrow> raise (ValueError s) m
         | Some p \<Rightarrow> ret p m))"

definition start_web_server :: "supervisor_deps \<Rightarrow> ('r, runner) act" where
  "start_web_server S =
     bnd (emit (AddGet ''/'')) (\<lambda>_.
     bnd (get_port S) (\<lambda>port.
     bnd (call RunnerSetup (runner_setup S)) (\<lambda>_.
     bnd (call (SiteStart ''0.0.0.0'' port) (site_start S ''0.0.0.0'' port)) (\<lambda>_.
     bnd (emit (Log INFO (''Web server started and bound to port '' @ str_int port))) (\<lambda>_.
     ret AppRunner)))))"

text \<open>
  \<open>async with bot\<close> enters the client, runs the body and leaves the client again when the
  body returned or raised.
\<close>

definition run_bot :: "supervisor_deps \<Rightarrow> ('r, unit) act" where
  "run_bot S =
     bnd (emit SetupLogging) (\<lambda>_.
     bnd (call BotEnter (bot_aenter S)) (\<lambda>_. \<lambda>m.
     try_finally (call (BotStart (environ m ''BOT_TOKEN'')) (bot_start S (environ m ''BOT_TOKEN'')))
       (call BotExit (bot_aexit S)) m))"

definition main :: "supervisor_deps \<Rightarrow> ('r, unit) act" where
  "main S =
     bnd (start_web_server S) (\<lambda>runner.
     try_finally (run_bot S) (call RunnerCleanup (runner_cleanup S runner)))"

subsection \<open>The owner's commands and the error handlers\<close>

text \<open>
  An attachment has a file name and, in \<open>content\<close>, what \<open>await attachment.read()\<close> gives.
  A command context has the attachments of the invoking message; \<open>ctx_send\<close> is
  \<open>ctx.send\<close>, giving the identifier of the message sent, and \<open>msg_delete\<close> is
  \<open>message.delete(delay=...)\<close>.
\<close>

record attachment =
  filename :: string
  content :: "pyexc + bytes"

record command_context =
  attachments :: "attachment list"
  ctx_send :: "string \<Rightarrow> pyexc + nat"
  msg_delete :: "nat \<Rightarrow> nat \<Rightarrow> pyexc option"

definition send :: "command_context \<Rightarrow> string \<Rightarrow> ('r, nat) act" where
  "send ctx s = (\<lambda>m. case ctx_send ctx s of
       Inl e \<Rightarrow> (Raise e, m, [Send s])
     | Inr i \<Rightarrow> (Ret i, m, [Send s]))"

definition delete_after :: "command_context \<Rightarrow> nat \<Rightarrow> nat \<Rightarrow> ('r, unit) act" where
  "delete_after ctx i delay = (\<lambda>m. case msg_delete ctx i delay of
       Some e \<Rightarrow> (Raise e, m, [Delete i delay])
     | None \<Rightarrow> (Ret (), m, [Delete i delay]))"

text \<open>\<open>await attachment.read()\<close>.\<close>

definition read_attachment :: "attachment \<Rightarrow> ('r, bytes) act" where
  "read_attachment a = (\<lambda>m. case content a of
       Inl e \<Rightarrow> (Raise e, m, [AttachmentRead (filename a)])
     | Inr raw \<Rightarrow> (Ret raw, m, [AttachmentRead (filename a)]))"

text \<open>\<open>with open(path, 'wb') as wbf: wbf.write(raw)\<close>.\<close>

definition write_file :: "string \<Rightarrow> bytes \<Rightarrow> ('r, unit) act" where
  "write_file p raw = (\<lambda>m.
     if p \<in> unwritable m then (Raise (OSError p), m, [])
     else (Ret (), m\<lparr>files := (files m)(p \<mapsto> raw)\<rparr>, [FileWrite p]))"

definition msg_uploaded :: string where
  "msg_uploaded = ''successfully uploaded data''"

text \<open>Lines 152-157.\<close>

definition upload_data :: "command_context \<Rightarrow> ('r, unit) act" where
  "upload_data ctx =
     bnd (case filter (\<lambda>attachment. last3 (filename attachment) = ''.db'') (attachments ctx) of
            [] \<Rightarrow> raise IndexError
          | a # _ \<Rightarrow> read_attachment a) (\<lambda>raw.
     bnd store_path (\<lambda>p.
     bnd (write_file p raw) (\<lambda>_.
     bnd (send ctx msg_uploaded) (\<lambda>message.
     delete_after ctx message 5))))"

text \<open>
  Errors of prefix commands: \<open>CommandNotFound\<close>, or any other \<open>CommandError\<close>; each carries
  its message \<open>str(error)\<close>.
\<close>

datatype command_error = CommandNotFound string | CommandError string

fun is_command_not_found :: "command_error \<Rightarrow> bool" where
  "is_command_not_found (CommandNotFound s) = True"
| "is_command_not_found (CommandError s) = False"

fun str_error :: "command_error \<Rightarrow> string" where
  "str_error (CommandNotFound s) = s"
| "str_error (CommandError s) = s"

definition msg_command_handler :: string where
  "msg_command_handler = ''an error occurred but was handled by the command error handler, error message : ''"

definition msg_tree_handler :: string where
  "msg_tree_handler = ''an error occurred but was handled by the tree error handler, error message : ''"

text \<open>Lines 167-172.\<close>

definition on_command_error :: "command_context \<Rightarrow> command_error \<Rightarrow> ('r, unit) act" where
  "on_command_error ctx error =
     (if is_command_not_found error then ret ()
      else bnd (send ctx (str_error error)) (\<lambda>_.
           emit (Log WARNING (msg_command_handler @ str_error error))))"

text \<open>
  An interaction: \<open>send_message\<close> is \<open>itn.response.send_message(content, ephemeral=True)\<close>.
  An \<open>AppCommandError\<close> carries its message.
\<close>

record interaction =
  send_message :: "string \<Rightarrow> pyexc option"

datatype app_command_error = AppCommandError string

fun str_app_error :: "app_command_error \<Rightarrow> string" where
  "str_app_error (AppCommandError s) = s"

definition respond :: "interaction \<Rightarrow> string \<Rightarrow> ('r, unit) act" where
  "respond itn s = (\<lambda>m. case send_message itn s of
       Some e \<Rightarrow> (Raise e, m, [SendEphemeral s])
     | None \<Rightarrow> (Ret (), m, [SendEphemeral s]))"

text \<open>Lines 161-163.\<close>

definition on_tree_error :: "interaction \<Rightarrow> app_command_error \<Rightarrow> ('r, unit) act" where
  "on_tree_error itn error =
     bnd (respond itn (str_app_error error)) (\<lambda>_.
     emit (Log WARNING (msg_tree_handler @ str_app_error error)))"

subsection \<open>Segments of on_ready\<close>

text \<open>
  \<open>boot_to_x\<close> is the part of \<open>on_ready\<close> before stage \<open>x\<close>, \<open>boot_from_x\<close> the part from
  stage \<open>x\<close> on; \<open>on_ready\<close> is the one followed by the other.
\<close>

definition boot_to_env :: "'r deps \<Rightarrow> ('r, unit) act" where
  "boot_to_env D = bnd (store_stage D) (\<lambda>_. call CheckUpgrade (check_upgrade D))"

definition boot_to_configs :: "'r deps \<Rightarrow> ('r, unit) act" where
  "boot_to_configs D = bnd (boot_to_env D) (\<lambda>_. env_stage D)"

definition boot_to_db :: "'r deps \<Rightarrow> configs \<Rightarrow> ('r, unit) act" where
  "boot_to_db D cfg = bnd (boot_to_configs D) (\<lambda>_. configs_stage D cfg)"

definition boot_to_extensions :: "'r deps \<Rightarrow> configs \<Rightarrow> ('r, unit) act" where
  "boot_to_extensions D cfg =
     bnd (boot_to_db D cfg) (\<lambda>_.
     bnd (db_stage D cfg) (\<lambda>_.
     call UpdatePresence (update_presence D)))"

definition boot_from_presence :: "'r deps \<Rightarrow> ('r, unit) act" where
  "boot_from_presence D =
     bnd (call UpdatePresence (update_presence D)) (\<lambda>_. extensions_stage D)"

definition boot_from_db :: "'r deps \<Rightarrow> configs \<Rightarrow> ('r, unit) act" where
  "boot_from_db D cfg = bnd (db_stage D cfg) (\<lambda>_. boot_from_presence D)"

definition boot_from_configs :: "'r deps \<Rightarrow> configs \<Rightarrow> ('r, unit) act" where
  "boot_from_configs D cfg = bnd (configs_stage D cfg) (\<lambda>_. boot_from_db D cfg)"

subsection \<open>Observing the effects\<close>

text \<open>\<open>never ev f\<close>: the effect \<open>ev\<close> is not among those \<open>f\<close> performs, in any state.\<close>

definition never :: "'r event \<Rightarrow> ('r, 'a) act \<Rightarrow> bool" where
  "never ev f = (\<forall>m. ev \<notin> set (events_of (f m)))"

text \<open>The names passed to \<open>bot.load_extension\<close>, in the order of the calls.\<close>

fun extension_of :: "'r event \<Rightarrow> string option" where
  "extension_of (LoadExtension n) = Some n"
| "extension_of ev = None"

definition loaded_names :: "'r event list \<Rightarrow> string list" where
  "loaded_names es = List.map_filter extension_of es"

subsection \<open>Example data\<close>

text \<open>
  A machine with \<open>DATA_PATH\<close> set to \<open>/data\<close>, imported functions that return at once (the
  arguments fix what the checks answer, what the directory lists and which extensions fail
  to load), a configuration, a supervisor whose bot task ends as given, and a command
  context.
\<close>

definition demo_machine :: "(string \<rightharpoonup> bytes) \<Rightarrow> machine" where
  "demo_machine fs =
     \<lparr>environ = [''DATA_PATH'' \<mapsto> ''/data''], files = fs, unwritable = {},
      executable = ''/usr/bin/python3'', argv = [''bot.py'']\<rparr>"

definition demo_store :: "string \<rightharpoonup> bytes" where
  "demo_store = [''/data/tracked_accounts.db'' \<mapsto> [1, 2, 3]]"

definition demo_deps ::
  "bool \<Rightarrow> bool \<Rightarrow> string list \<Rightarrow> string list \<Rightarrow> string list \<Rightarrow> string deps" where
  "demo_deps env_ok configs_ok invalid listing failing =
     \<lparr>init_db = (\<lambda>m. (Ret (), m\<lparr>files := (files m)(''/data/tracked_accounts.db'' \<mapsto> [])\<rparr>)),
      check_upgrade = (\<lambda>m. (Ret (), m)),
      check_env = (\<lambda>m. (Ret env_ok, m)),
      load_dotenv = (\<lambda>m. (Ret (), m)),
      check_configs = (\<lambda>cfg m. (Ret configs_ok, m)),
      check_db = (\<lambda>m. (Ret invalid, m)),
      auto_repair_mismatched_clients = (\<lambda>inv m. (Ret (), m)),
      update_presence = (\<lambda>m. (Ret (), m)),
      listdir = (\<lambda>d m. (Ret listing, m)),
      load_extension =
        (\<lambda>n m. if n \<in> set failing then (Raise (External n), m) else (Ret (), m)),
      tree_sync = (\<lambda>m. (Ret [''sync'', ''add'', ''remove''], m)),
      bot_user = ''Tweetcord#0001''\<rparr>"

definition demo_configs :: "bool \<Rightarrow> configs" where
  "demo_configs repair =
     [''prefix'' \<mapsto> VStr ''!'', ''auto_repair_mismatched_clients'' \<mapsto> VBool repair]"

definition demo_request :: request where
  "demo_request = \<lparr>req_method = ''GET'', req_path = ''/''\<rparr>"

definition demo_supervisor :: "unit outcome \<Rightarrow> supervisor_deps" where
  "demo_supervisor bot_result =
     \<lparr>int_of_string = (\<lambda>s. if s = ''8080'' then Some 8080 else None),
      runner_setup = (\<lambda>m. (Ret (), m)),
      site_start = (\<lambda>host port m. (Ret (), m)),
      runner_cleanup = (\<lambda>runner m. (Ret (), m)),
      bot_aenter = (\<lambda>m. (Ret (), m)),
      bot_start = (\<lambda>token m. (bot_result, m)),
      bot_aexit = (\<lambda>m. (Ret (), m))\<rparr>"

definition demo_context :: "attachment list \<Rightarrow> command_context" where
  "demo_context as =
     \<lparr>attachments = as, ctx_send = (\<lambda>s. Inr 7), msg_delete = (\<lambda>i delay. None)\<rparr>"

definition demo_attachments :: "attachment list" where
  "demo_attachments =
     [\<lparr>filename = ''notes.txt'', content = Inr [104, 105]\<rparr>,
      \<lparr>filename = ''backup.db'', content = Inr [83, 81, 76]\<rparr>,
      \<lparr>filename = ''older.db'', content = Inr [0]\<rparr>]"

definition demo_not_found :: string where
  "demo_not_found = ''Command '' @ [CHR 0x22] @ ''relaod'' @ [CHR 0x22] @ '' is not found''"

definition demo_interaction :: interaction where
  "demo_interaction = \<lparr>send_message = (\<lambda>s. None)\<rparr>"

section \<open>Properties\<close>

subsection \<open>Sequencing and effects\<close>

lemma bnd_Ret: "f m = (Ret x, m1, e1) \<Longrightarrow> bnd f g m = (outcome_of (g x m1), machine_of (g x m1), e1 @ events_of (g x m1))"
  by (simp add: bnd_def outcome_of_def machine_of_def events_of_def split: prod.splits)

lemma bnd_Raise: "f m = (Raise e, m1, e1) \<Longrightarrow> bnd f g m = (Raise e, m1, e1)"
  by (simp add: bnd_def)

lemma bnd_Exec: "f m = (Exec p a, m1, e1) \<Longrightarrow> bnd f g m = (Exec p a, m1, e1)"
  by (simp add: bnd_def)

lemma bnd_assoc: "bnd (bnd f g) h = bnd f (\<lambda>x. bnd (g x) h)"
  by (rule ext) (simp add: bnd_def split: prod.splits outcome.splits)

lemma bnd_ret_left: "bnd (ret x) g = g x"
  by (rule ext) (simp add: bnd_def ret_def split: prod.splits)

lemma events_bnd:
  "events_of (bnd f g m) =
     events_of (f m) @ (case outcome_of (f m) of Ret x \<Rightarrow> events_of (g x (machine_of (f m))) | _ \<Rightarrow> [])"
  by (simp add: bnd_def outcome_of_def machine_of_def events_of_def split: prod.splits outcome.splits)

lemma never_ret: "never ev (ret x)"
  by (simp add: never_def ret_def events_of_def)

lemma never_raise: "never ev (raise e)"
  by (simp add: never_def raise_def events_of_def)

lemma never_emit: "ev \<noteq> ev' \<Longrightarrow> never ev (emit ev')"
  by (simp add: never_def emit_def events_of_def)

lemma never_call: "ev \<noteq> ev' \<Longrightarrow> never ev (call ev' f)"
  by (simp add: never_def call_def events_of_def split: prod.splits)

lemma never_bnd: "never ev f \<Longrightarrow> (\<And>x. never ev (g x)) \<Longrightarrow> never ev (bnd f g)"
  by (auto simp: never_def events_bnd split: outcome.splits)

lemma never_if: "never ev f \<Longrightarrow> never ev g \<Longrightarrow> never ev (if b then f else g)"
  by simp

lemma never_cond: "never ev f \<Longrightarrow> never ev g \<Longrightarrow> never ev (\<lambda>m. if b m then f m else g m)"
  by (simp add: never_def)

lemma never_store_path: "never ev store_path"
  by (simp add: never_def store_path_def ret_def raise_def events_of_def split: option.splits)

lemma never_config_get: "never ev (config_get cfg k)"
  by (simp add: config_get_def never_ret never_raise split: option.splits)

lemma never_execv: "(\<And>p a. ev \<noteq> Execv p a) \<Longrightarrow> never ev execv"
  by (simp add: never_def execv_def events_of_def)

lemma never_load_cogs: "(\<And>n. ev \<noteq> LoadExtension n) \<Longrightarrow> never ev (load_cogs D fs)"
  by (induction fs) (auto intro!: never_bnd never_ret never_call)

lemma never_store_stage: "ev \<noteq> InitDb \<Longrightarrow> never ev (store_stage D)"
  unfolding store_stage_def
  by (intro never_bnd never_store_path never_cond never_call never_ret) 

lemma never_env_stage:
  "ev \<notin> {CheckEnv, Log WARNING msg_env, Sleep 30, LoadDotenv} \<Longrightarrow> never ev (env_stage D)"
  unfolding env_stage_def
  by (intro never_bnd never_if never_call never_ret never_emit) auto

lemma never_configs_stage:
  "ev \<notin> {CheckConfigs, Log WARNING msg_configs, Sleep 30} \<Longrightarrow> (\<And>p a. ev \<noteq> Execv p a) \<Longrightarrow> never ev (configs_stage D cfg)"
  unfolding configs_stage_def
  by (intro never_bnd never_if never_call never_ret never_emit never_execv) auto

lemma never_db_stage:
  "ev \<notin> {CheckDb, Log WARNING msg_detected, Log INFO msg_replaced, Log WARNING msg_set_option,
          Log INFO msg_passed} \<Longrightarrow> (\<And>r. ev \<noteq> Repair r) \<Longrightarrow> never ev (db_stage D cfg)"
  unfolding db_stage_def
  by (intro never_bnd never_if never_call never_ret never_emit never_config_get) auto

lemma never_extensions_stage:
  "(\<And>n. ev \<noteq> LoadExtension n) \<Longrightarrow> (\<And>l s. ev \<noteq> Log l s) \<Longrightarrow> (\<And>d. ev \<noteq> ListDir d) \<Longrightarrow>
   ev \<notin> {SetTreeOnError, TreeSync} \<Longrightarrow> never ev (extensions_stage D)"
  unfolding extensions_stage_def
  by (intro never_bnd never_if never_call never_ret never_emit never_load_cogs) auto

lemma on_ready_from_env:
  "on_ready D cfg = bnd (boot_to_env D) (\<lambda>_. bnd (env_stage D) (\<lambda>_. boot_from_configs D cfg))"
  by (simp add: on_ready_def boot_to_env_def boot_from_configs_def boot_from_db_def
      boot_from_presence_def bnd_assoc)

lemma on_ready_from_configs:
  "on_ready D cfg = bnd (boot_to_configs D) (\<lambda>_. boot_from_configs D cfg)"
  by (simp add: on_ready_from_env boot_to_configs_def bnd_assoc)

lemma on_ready_from_db:
  "on_ready D cfg = bnd (boot_to_db D cfg) (\<lambda>_. boot_from_db D cfg)"
  by (simp add: on_ready_from_configs boot_to_db_def boot_from_configs_def bnd_assoc)

lemma on_ready_from_extensions:
  "on_ready D cfg = bnd (boot_to_extensions D cfg) (\<lambda>_. extensions_stage D)"
  by (simp add: on_ready_from_db boot_to_extensions_def boot_from_db_def boot_from_presence_def
      bnd_assoc)

lemma never_boot_to_env: "ev \<notin> {InitDb, CheckUpgrade} \<Longrightarrow> never ev (boot_to_env D)"
  unfolding boot_to_env_def
  by (intro never_bnd never_store_stage never_call) auto

lemma never_boot_to_configs:
  "ev \<notin> {InitDb, CheckUpgrade, CheckEnv, Log WARNING msg_env, Sleep 30, LoadDotenv} \<Longrightarrow>
   never ev (boot_to_configs D)"
  unfolding boot_to_configs_def
  by (intro never_bnd never_boot_to_env never_env_stage) auto

lemma never_events: "never ev f \<Longrightarrow> f m = (r, m1, es) \<Longrightarrow> ev \<notin> set es"
  by (auto simp: never_def events_of_def dest: spec [of _ m])

lemma configs_stage_False:
  "check_configs D cfg m1 = (Ret False, m2) \<Longrightarrow>
   configs_stage D cfg m1 =
     (Exec (executable m2) (''python'' # argv m2), m2,
      [CheckConfigs, Log WARNING msg_configs, Sleep 30,
       Execv (executable m2) (''python'' # argv m2)])"
  by (simp add: configs_stage_def bnd_def call_def emit_def execv_def)

subsection \<open>The configuration check\<close>

text \<open>
  C4. Whenever \<open>check_configs\<close> returns false in a run of \<open>on_ready\<close>, the handler logs the
  warning, sleeps 30 seconds and re-executes the process image with
  \<open>os.execv(sys.executable, ['python'] + sys.argv)\<close>; that is the last thing the run does,
  and \<open>check_db\<close> is not called in it.
\<close>

theorem configs_failure_restarts:
  assumes reach: "boot_to_configs D m = (Ret (), m1, es1)"
    and failed: "check_configs D cfg m1 = (Ret False, m2)"
  shows "on_ready D cfg m =
           (Exec (executable m2) (''python'' # argv m2), m2,
            es1 @ [CheckConfigs, Log WARNING msg_configs, Sleep 30,
                   Execv (executable m2) (''python'' # argv m2)])
         \<and> CheckDb \<notin> set (events_of (on_ready D cfg m))"
proof -
  have stage: "boot_from_configs D cfg m1 =
      (Exec (executable m2) (''python'' # argv m2), m2,
       [CheckConfigs, Log WARNING msg_configs, Sleep 30,
        Execv (executable m2) (''python'' # argv m2)])"
    unfolding boot_from_configs_def
    by (rule bnd_Exec) (rule configs_stage_False [OF failed])
  have run: "on_ready D cfg m =
      (Exec (executable m2) (''python'' # argv m2), m2,
       es1 @ [CheckConfigs, Log WARNING msg_configs, Sleep 30,
              Execv (executable m2) (''python'' # argv m2)])"
    by (simp add: on_ready_from_configs bnd_Ret [of "boot_to_configs D", OF reach] stage outcome_of_def machine_of_def
        events_of_def)
  have "never CheckDb (boot_to_configs D)"
    by (rule never_boot_to_configs) simp
  then have "CheckDb \<notin> set es1"
    using reach by (rule never_events)
  then show ?thesis
    by (simp add: run events_of_def)
qed

theorem configs_failure_restarts_witness:
  "boot_to_configs (demo_deps True False [] [''a.py''] []) (demo_machine demo_store) =
     (Ret (), demo_machine demo_store, [CheckUpgrade, CheckEnv])
   \<and> check_configs (demo_deps True False [] [''a.py''] []) (demo_configs True) (demo_machine demo_store) =
     (Ret False, demo_machine demo_store)
   \<and> on_ready (demo_deps True False [] [''a.py''] []) (demo_configs True) (demo_machine demo_store) =
     (Exec ''/usr/bin/python3'' [''python'', ''bot.py''], demo_machine demo_store,
      [CheckUpgrade, CheckEnv, CheckConfigs, Log WARNING msg_configs, Sleep 30,
       Execv ''/usr/bin/python3'' [''python'', ''bot.py'']])"
proof -
  have reach: "boot_to_configs (demo_deps True False [] [''a.py''] []) (demo_machine demo_store) =
     (Ret (), demo_machine demo_store, [CheckUpgrade, CheckEnv])"
    by (simp add: boot_to_configs_def boot_to_env_def store_stage_def env_stage_def store_path_def
        bnd_def call_def ret_def isfile_def path_join_def demo_deps_def demo_machine_def
        demo_store_def)
  have failed: "check_configs (demo_deps True False [] [''a.py''] []) (demo_configs True)
      (demo_machine demo_store) = (Ret False, demo_machine demo_store)"
    by (simp add: demo_deps_def)
  have "executable (demo_machine demo_store) = ''/usr/bin/python3''"
    "argv (demo_machine demo_store) = [''bot.py'']"
    by (simp_all add: demo_machine_def)
  with configs_failure_restarts [OF reach failed] reach failed show ?thesis
    by simp
qed

lemma outcome_of_triple [simp]: "outcome_of (r, m, es) = r"
  by (simp add: outcome_of_def)

lemma machine_of_triple [simp]: "machine_of (r, m, es) = m"
  by (simp add: machine_of_def)

lemma events_of_triple [simp]: "events_of (r, m, es) = es"
  by (simp add: events_of_def)

lemma events_call: "events_of (call ev f m) = [ev]"
  by (simp add: call_def split: prod.splits)

lemma outcome_call: "outcome_of (call ev f m) = fst (f m)"
  by (simp add: call_def split: prod.splits)

lemma machine_call: "machine_of (call ev f m) = snd (f m)"
  by (simp add: call_def split: prod.splits)




subsection \<open>The database check\<close>



lemma store_stage_present:
  "environ m ''DATA_PATH'' = Some d \<Longrightarrow> isfile m (path_join d ''tracked_accounts.db'') \<Longrightarrow>
   store_stage D m = (Ret (), m, [])"
  by (simp add: store_stage_def store_path_def bnd_def ret_def)

lemma store_stage_absent:
  "environ m ''DATA_PATH'' = Some d \<Longrightarrow> \<not> isfile m (path_join d ''tracked_accounts.db'') \<Longrightarrow>
   store_stage D m = (fst (init_db D m), snd (init_db D m), [InitDb])"
  by (simp add: store_stage_def store_path_def bnd_def ret_def call_def split: prod.splits)

lemma never_boot_from_configs: "never InitDb (boot_from_configs D cfg)"
  unfolding boot_from_configs_def boot_from_db_def boot_from_presence_def
  by (intro never_bnd never_configs_stage never_db_stage never_extensions_stage never_call) auto

lemma never_after_store:
  "never InitDb (\<lambda>m. bnd (call CheckUpgrade (check_upgrade D)) (\<lambda>_.
     bnd (env_stage D) (\<lambda>_. boot_from_configs D cfg)) m)"
  by (intro never_bnd never_env_stage never_boot_from_configs never_call) auto

lemma env_stage_first: "\<exists>es. events_of (bnd (env_stage D) k m) = CheckEnv # es"
  by (simp add: events_bnd env_stage_def events_call)

lemma after_upgrade_events:
  "check_upgrade D m = (Ret (), m1) \<Longrightarrow>
   \<exists>es. events_of (bnd (call CheckUpgrade (check_upgrade D)) (\<lambda>_. bnd (env_stage D) k) m) =
     CheckUpgrade # CheckEnv # es"
  using env_stage_first [of D k m1]
  by (auto simp: events_bnd [of "call CheckUpgrade (check_upgrade D)"] events_call outcome_call
      machine_call)

lemma on_ready_from_store:
  "on_ready D cfg =
     bnd (store_stage D) (\<lambda>_. bnd (call CheckUpgrade (check_upgrade D)) (\<lambda>_.
       bnd (env_stage D) (\<lambda>_. boot_from_configs D cfg)))"
  by (simp add: on_ready_def boot_from_configs_def boot_from_db_def boot_from_presence_def)

subsection \<open>The store\<close>

text \<open>
  C7. With \<open>DATA_PATH\<close> set, a run of \<open>on_ready\<close> calls \<open>init_db\<close> if and only if
  \<open>tracked_accounts.db\<close> is not a file in the data directory; in both cases, once
  \<open>init_db\<close> (when called) and \<open>check_upgrade\<close> have returned, the next call is
  \<open>check_env\<close>.
\<close>

theorem store_initialised_iff_missing:
  assumes data_path: "environ m ''DATA_PATH'' = Some d"
  shows "(InitDb \<in> set (events_of (on_ready D cfg m))) =
           (\<not> isfile m (path_join d ''tracked_accounts.db''))
       \<and> (isfile m (path_join d ''tracked_accounts.db'') \<and> check_upgrade D m = (Ret (), m2) \<longrightarrow>
            take 2 (events_of (on_ready D cfg m)) = [CheckUpgrade, CheckEnv])
       \<and> (\<not> isfile m (path_join d ''tracked_accounts.db'') \<and> init_db D m = (Ret (), m1) \<and>
            check_upgrade D m1 = (Ret (), m2) \<longrightarrow>
            take 3 (events_of (on_ready D cfg m)) = [InitDb, CheckUpgrade, CheckEnv])"
proof (cases "isfile m (path_join d ''tracked_accounts.db'')")
  case True
  let ?rest = "bnd (call CheckUpgrade (check_upgrade D)) (\<lambda>_.
       bnd (env_stage D) (\<lambda>_. boot_from_configs D cfg))"
  have run: "events_of (on_ready D cfg m) = events_of (?rest m)"
    by (simp add: on_ready_from_store events_bnd [of "store_stage D"]
        store_stage_present [OF data_path True])
  have "InitDb \<notin> set (events_of (?rest m))"
    using never_after_store [of D cfg] by (simp add: never_def)
  moreover have "take 2 (events_of (?rest m)) = [CheckUpgrade, CheckEnv]"
    if "check_upgrade D m = (Ret (), m2)"
    using after_upgrade_events [OF that, of "\<lambda>_. boot_from_configs D cfg"] by auto
  ultimately show ?thesis
    using True by (simp add: run)
next
  case False
  let ?rest = "bnd (call CheckUpgrade (check_upgrade D)) (\<lambda>_.
       bnd (env_stage D) (\<lambda>_. boot_from_configs D cfg))"
  have run: "events_of (on_ready D cfg m) =
      InitDb # (case fst (init_db D m) of Ret x \<Rightarrow> events_of (?rest (snd (init_db D m))) | _ \<Rightarrow> [])"
    by (simp add: on_ready_from_store events_bnd [of "store_stage D"]
        store_stage_absent [OF data_path False] cong: outcome.case_cong)
  have "take 3 (events_of (on_ready D cfg m)) = [InitDb, CheckUpgrade, CheckEnv]"
    if "init_db D m = (Ret (), m1)" "check_upgrade D m1 = (Ret (), m2)"
    using after_upgrade_events [OF that(2), of "\<lambda>_. boot_from_configs D cfg"] that(1)
    by (auto simp: run)
  then show ?thesis
    using False by (simp add: run)
qed

theorem store_initialised_iff_missing_witness:
  "environ (demo_machine Map.empty) ''DATA_PATH'' = Some ''/data''
   \<and> \<not> isfile (demo_machine Map.empty) ''/data/tracked_accounts.db''
   \<and> InitDb \<in> set (events_of (on_ready (demo_deps True True [] [] []) (demo_configs True)
         (demo_machine Map.empty)))
   \<and> take 3 (events_of (on_ready (demo_deps True True [] [] []) (demo_configs True)
         (demo_machine Map.empty))) = [InitDb, CheckUpgrade, CheckEnv]
   \<and> isfile (demo_machine demo_store) ''/data/tracked_accounts.db''
   \<and> InitDb \<notin> set (events_of (on_ready (demo_deps True True [] [] []) (demo_configs True)
         (demo_machine demo_store)))
   \<and> take 2 (events_of (on_ready (demo_deps True True [] [] []) (demo_configs True)
         (demo_machine demo_store))) = [CheckUpgrade, CheckEnv]"
proof -
  let ?D = "demo_deps True True [] [] []"
  let ?created = "(demo_machine Map.empty)\<lparr>files := [''/data/tracked_accounts.db'' \<mapsto> []]\<rparr>"
  have p: "path_join ''/data'' ''tracked_accounts.db'' = ''/data/tracked_accounts.db''"
    by (simp add: path_join_def)
  have e1: "environ (demo_machine Map.empty) ''DATA_PATH'' = Some ''/data''"
    and e2: "environ (demo_machine demo_store) ''DATA_PATH'' = Some ''/data''"
    by (simp_all add: demo_machine_def)
  have f1: "\<not> isfile (demo_machine Map.empty) ''/data/tracked_accounts.db''"
    and f2: "isfile (demo_machine demo_store) ''/data/tracked_accounts.db''"
    by (simp_all add: isfile_def demo_machine_def demo_store_def)
  have i: "init_db ?D (demo_machine Map.empty) = (Ret (), ?created)"
    and u1: "check_upgrade ?D ?created = (Ret (), ?created)"
    and u2: "check_upgrade ?D (demo_machine demo_store) = (Ret (), demo_machine demo_store)"
    by (simp_all add: demo_deps_def demo_machine_def)
  show ?thesis
    using store_initialised_iff_missing [OF e1, of ?D "demo_configs True" ?created ?created]
      store_initialised_iff_missing [OF e2, of ?D "demo_configs True" "demo_machine demo_store"]
      e1 f1 f2 i u1 u2
    by (simp add: p)
qed

lemma str_nat_3: "str_nat (Suc (Suc (Suc 0))) = ''3''"
  by (simp add: str_nat.simps digit_def)

lemma call_eq: "call ev f m = (fst (f m), snd (f m), [ev])"
  by (simp add: call_def split: prod.splits)

lemma bnd_emit:
  "bnd (emit ev) g m = (outcome_of (g () m), machine_of (g () m), ev # events_of (g () m))"
  by (simp add: bnd_def emit_def split: prod.splits)

lemma bnd_call_Ret:
  "f m = (Ret x, m1) \<Longrightarrow>
   bnd (call ev f) g m = (outcome_of (g x m1), machine_of (g x m1), ev # events_of (g x m1))"
  by (simp add: bnd_def call_def split: prod.splits)


lemmas run_defs =
  on_ready_def store_stage_def env_stage_def configs_stage_def db_stage_def
  extensions_stage_def store_path_def config_get_def execv_def
  bnd_def call_def ret_def raise_def emit_def isfile_def path_join_def

lemma never_CheckEnv_rest: "never CheckEnv (boot_from_configs D cfg)"
  unfolding boot_from_configs_def boot_from_db_def boot_from_presence_def
  by (intro never_bnd never_configs_stage never_db_stage never_extensions_stage never_call) auto

lemma configs_stage_first: "\<exists>es. events_of (bnd (configs_stage D cfg) k m) = CheckConfigs # es"
  by (simp add: events_bnd configs_stage_def events_call)

lemma env_stage_False:
  "check_env D m1 = (Ret False, m2) \<Longrightarrow>
   env_stage D m1 =
     (fst (load_dotenv D m2), snd (load_dotenv D m2),
      [CheckEnv, Log WARNING msg_env, Sleep 30, LoadDotenv])"
  by (simp add: env_stage_def bnd_call_Ret [of "check_env D" m1 False m2] bnd_emit call_eq)


lemma on_ready_env_False:
  assumes reach: "boot_to_env D m = (Ret (), m1, es1)"
    and failed: "check_env D m1 = (Ret False, m2)"
  shows "events_of (on_ready D cfg m) = es1 @ [CheckEnv, Log WARNING msg_env, Sleep 30, LoadDotenv] @ (case fst (load_dotenv D m2) of
      Ret u \<Rightarrow> events_of (boot_from_configs D cfg (snd (load_dotenv D m2))) | _ \<Rightarrow> [])"
proof -
  have a: "events_of (on_ready D cfg m) = es1 @ events_of (bnd (env_stage D) (\<lambda>_. boot_from_configs D cfg) m1)"
    by (simp add: on_ready_from_env bnd_Ret [of "boot_to_env D", OF reach])
  have b: "events_of (bnd (env_stage D) (\<lambda>_. boot_from_configs D cfg) m1) =
      [CheckEnv, Log WARNING msg_env, Sleep 30, LoadDotenv] @ (case fst (load_dotenv D m2) of
      Ret u \<Rightarrow> events_of (boot_from_configs D cfg (snd (load_dotenv D m2))) | _ \<Rightarrow> [])"
  proof -
    obtain r m3 where reread: "load_dotenv D m2 = (r, m3)"
      by (cases "load_dotenv D m2")
    show ?thesis
      unfolding events_bnd [of "env_stage D"] env_stage_False [OF failed] reread
      by (cases r) simp_all
  qed
  show ?thesis
    unfolding a b by simp
qed

subsection \<open>The environment check\<close>

text \<open>
  C2, as the code has it. Whenever \<open>check_env\<close> returns false in a run of \<open>on_ready\<close>, the
  handler logs the warning, sleeps 30 seconds and reads the environment file again with
  \<open>load_dotenv\<close>; when that returns, the next call is \<open>check_configs\<close>. The environment
  check is not run a second time: \<open>check_env\<close> is called exactly once in the run.
\<close>

theorem env_check_runs_once:
  assumes reach: "boot_to_env D m = (Ret (), m1, es1)"
    and failed: "check_env D m1 = (Ret False, m2)"
  shows "take (length es1 + 4) (events_of (on_ready D cfg m)) =
           es1 @ [CheckEnv, Log WARNING msg_env, Sleep 30, LoadDotenv]
       \<and> count_list (events_of (on_ready D cfg m)) CheckEnv = 1
       \<and> (load_dotenv D m2 = (Ret (), m3) \<longrightarrow>
            take (length es1 + 5) (events_of (on_ready D cfg m)) =
              es1 @ [CheckEnv, Log WARNING msg_env, Sleep 30, LoadDotenv, CheckConfigs])"
proof -
  let ?stage = "[CheckEnv, Log WARNING msg_env, Sleep 30, LoadDotenv]"
  let ?tail = "case fst (load_dotenv D m2) of
      Ret u \<Rightarrow> events_of (boot_from_configs D cfg (snd (load_dotenv D m2))) | _ \<Rightarrow> []"
  have run: "events_of (on_ready D cfg m) = es1 @ ?stage @ ?tail"
    using on_ready_env_False [OF reach failed] by simp
  have "never CheckEnv (boot_to_env D)"
    by (rule never_boot_to_env) simp
  then have before: "CheckEnv \<notin> set es1"
    using reach by (rule never_events)
  have after: "CheckEnv \<notin> set ?tail"
    using never_CheckEnv_rest [of D cfg] by (simp add: never_def split: outcome.splits)
  have "count_list es1 CheckEnv = 0" "count_list ?tail CheckEnv = 0"
    using before after by (simp_all only: count_list_0_iff not_False_eq_True)
  then have once: "count_list (events_of (on_ready D cfg m)) CheckEnv = 1"
    by (simp add: run)
  have next_stage: "take (length es1 + 5) (events_of (on_ready D cfg m)) =
      es1 @ [CheckEnv, Log WARNING msg_env, Sleep 30, LoadDotenv, CheckConfigs]"
    if "load_dotenv D m2 = (Ret (), m3)"
  proof -
    obtain es where "events_of (boot_from_configs D cfg m3) = CheckConfigs # es"
      using configs_stage_first [of D cfg "\<lambda>_. boot_from_db D cfg" m3]
      by (auto simp: boot_from_configs_def)
    then show ?thesis
      using that by (simp add: run)
  qed
  have "take (length es1 + 4) (events_of (on_ready D cfg m)) = es1 @ ?stage"
    by (simp add: run)
  then show ?thesis
    using once next_stage by blast
qed

theorem env_check_runs_once_witness:
  "boot_to_env (demo_deps False True [] [''a.py''] []) (demo_machine demo_store) =
     (Ret (), demo_machine demo_store, [CheckUpgrade])
   \<and> check_env (demo_deps False True [] [''a.py''] []) (demo_machine demo_store) =
     (Ret False, demo_machine demo_store)
   \<and> load_dotenv (demo_deps False True [] [''a.py''] []) (demo_machine demo_store) =
     (Ret (), demo_machine demo_store)
   \<and> take 6 (events_of (on_ready (demo_deps False True [] [''a.py''] []) (demo_configs True)
        (demo_machine demo_store))) =
     [CheckUpgrade, CheckEnv, Log WARNING msg_env, Sleep 30, LoadDotenv, CheckConfigs]
   \<and> count_list (events_of (on_ready (demo_deps False True [] [''a.py''] []) (demo_configs True)
        (demo_machine demo_store))) CheckEnv = 1"
proof -
  let ?D = "demo_deps False True [] [''a.py''] []"
  have reach: "boot_to_env ?D (demo_machine demo_store) =
      (Ret (), demo_machine demo_store, [CheckUpgrade])"
    by (simp add: boot_to_env_def run_defs demo_deps_def demo_machine_def demo_store_def)
  have failed: "check_env ?D (demo_machine demo_store) = (Ret False, demo_machine demo_store)"
    and reread: "load_dotenv ?D (demo_machine demo_store) = (Ret (), demo_machine demo_store)"
    by (simp_all add: demo_deps_def)
  show ?thesis
    using env_check_runs_once [OF reach failed, of "demo_configs True" "demo_machine demo_store"]
      reach failed reread
    by simp
qed

text \<open>
  C2 as stated fails: in this run \<open>check_env\<close> returns false, and the handler goes from
  \<open>load_dotenv\<close> straight to \<open>check_configs\<close>; \<open>check_env\<close> is called once, not twice.
\<close>

theorem env_check_not_repeated:
  "check_env (demo_deps False True [] [''a.py''] []) (demo_machine demo_store) =
     (Ret False, demo_machine demo_store)
   \<and> events_of (on_ready (demo_deps False True [] [''a.py''] []) (demo_configs True)
        (demo_machine demo_store)) =
     [CheckUpgrade, CheckEnv, Log WARNING msg_env, Sleep 30, LoadDotenv, CheckConfigs, CheckDb,
      Log INFO msg_passed, UpdatePresence, SetTreeOnError, ListDir ''./cogs'',
      LoadExtension ''cogs.a'', Log INFO ''Tweetcord#0001 is online'', TreeSync,
      Log INFO ''synced 3 slash commands'']
   \<and> \<not> 2 \<le> count_list (events_of (on_ready (demo_deps False True [] [''a.py''] [])
        (demo_configs True) (demo_machine demo_store))) CheckEnv"
proof -
  have run: "events_of (on_ready (demo_deps False True [] [''a.py''] []) (demo_configs True)
        (demo_machine demo_store)) =
     [CheckUpgrade, CheckEnv, Log WARNING msg_env, Sleep 30, LoadDotenv, CheckConfigs, CheckDb,
      Log INFO msg_passed, UpdatePresence, SetTreeOnError, ListDir ''./cogs'',
      LoadExtension ''cogs.a'', Log INFO ''Tweetcord#0001 is online'', TreeSync,
      Log INFO ''synced 3 slash commands'']"
    by (simp add: run_defs demo_deps_def demo_machine_def demo_store_def demo_configs_def
        endswith_def extension_name_def drop_last3_def str_nat_3)
  show ?thesis
    by (simp add: run) (simp add: demo_deps_def)
qed

lemma loaded_names_Nil [simp]: "loaded_names [] = []"
  by (simp add: loaded_names_def map_filter_simps)

lemma loaded_names_Cons_load [simp]: "loaded_names (LoadExtension n # es) = n # loaded_names es"
  by (simp add: loaded_names_def map_filter_simps)

lemma loaded_names_Cons_other [simp]:
  "extension_of ev = None \<Longrightarrow> loaded_names (ev # es) = loaded_names es"
  by (simp add: loaded_names_def map_filter_simps)

lemma loaded_names_append [simp]: "loaded_names (xs @ ys) = loaded_names xs @ loaded_names ys"
  by (simp add: loaded_names_def List.map_filter_def)

lemma loaded_names_none: "(\<And>n. LoadExtension n \<notin> set es) \<Longrightarrow> loaded_names es = []"
proof (induction es)
  case Nil
  show ?case by simp
next
  case (Cons ev es)
  then show ?case by (cases ev) auto
qed

lemma endswith_suffix: "endswith s suf = suffix suf s"
proof
  assume "endswith s suf"
  then have "s = take (length s - length suf) s @ suf"
    by (metis append_take_drop_id endswith_def)
  then show "suffix suf s"
    by (rule suffixI)
next
  assume "suffix suf s"
  then obtain pre where "s = pre @ suf"
    by (auto simp: suffix_def)
  then show "endswith s suf"
    by (simp add: endswith_def)
qed

lemma load_cogs_append:
  "load_cogs D (xs @ ys) = bnd (load_cogs D xs) (\<lambda>_. load_cogs D ys)"
  by (induction xs) (simp_all add: bnd_ret_left bnd_assoc)

lemma load_cogs_step:
  "load_cogs D (f # fs) m =
     (if endswith f ''.py''
      then bnd (call (LoadExtension (extension_name f)) (load_extension D (extension_name f)))
             (\<lambda>_. load_cogs D fs) m
      else load_cogs D fs m)"
  by (simp add: bnd_ret_left)

lemma load_cogs_names_prefix:
  "prefix (loaded_names (events_of (load_cogs D fs m)))
     (map extension_name (filter (\<lambda>f. endswith f ''.py'') fs))"
proof (induction fs arbitrary: m)
  case Nil
  show ?case by (simp add: ret_def)
next
  case (Cons f fs)
  show ?case
  proof (cases "endswith f ''.py''")
    case False
    then show ?thesis
      using Cons.IH [of m] by (simp add: bnd_ret_left)
  next
    case True
    obtain r m1 where step: "load_extension D (extension_name f) m = (r, m1)"
      by (cases "load_extension D (extension_name f) m")
    show ?thesis
      using Cons.IH [of m1] True
      by (cases r) (simp_all add: events_bnd events_call outcome_call machine_call step)
  qed
qed

lemma load_cogs_names_all:
  "outcome_of (load_cogs D fs m) = Ret () \<Longrightarrow>
   loaded_names (events_of (load_cogs D fs m)) =
     map extension_name (filter (\<lambda>f. endswith f ''.py'') fs)"
proof (induction fs arbitrary: m)
  case Nil
  show ?case by (simp add: ret_def)
next
  case (Cons f fs)
  show ?case
  proof (cases "endswith f ''.py''")
    case False
    then show ?thesis
      using Cons.IH [of m] Cons.prems by (simp add: bnd_ret_left)
  next
    case True
    obtain r m1 where step: "load_extension D (extension_name f) m = (r, m1)"
      by (cases "load_extension D (extension_name f) m")
    have run: "load_cogs D (f # fs) m =
        bnd (call (LoadExtension (extension_name f)) (load_extension D (extension_name f)))
          (\<lambda>_. load_cogs D fs) m"
      using True by simp
    show ?thesis
    proof (cases r)
      case (Ret u)
      note returned = step [unfolded Ret]
      have rest: "outcome_of (load_cogs D fs m1) = Ret ()"
        using Cons.prems True by (simp add: bnd_call_Ret [of "load_extension D (extension_name f)" m u m1, OF returned])
      show ?thesis
        using Cons.IH [OF rest] True by (simp add: bnd_call_Ret [of "load_extension D (extension_name f)" m u m1, OF returned])
    next
      case (Raise e)
      then show ?thesis
        using Cons.prems step True by (simp add: bnd_def call_def)
    next
      case (Exec p a)
      then show ?thesis
        using Cons.prems step True by (simp add: bnd_def call_def)
    qed
  qed
qed

lemma never_load_before_extensions: "never (LoadExtension n) (boot_to_extensions D cfg)"
  unfolding boot_to_extensions_def boot_to_db_def
  by (intro never_bnd never_boot_to_configs never_configs_stage never_db_stage never_call) auto

lemma extensions_stage_listed:
  assumes listing: "listdir D ''./cogs'' m1 = (Ret filenames, m2)"
    and k: "k = (\<lambda>_. bnd (emit (Log INFO (bot_user D @ '' is online''))) (\<lambda>_.
          bnd (call TreeSync (tree_sync D)) (\<lambda>slash.
          emit (Log INFO (''synced '' @ str_nat (length slash) @ '' slash commands'')))))"
  shows "extensions_stage D m1 =
     (outcome_of (bnd (load_cogs D filenames) k m2), machine_of (bnd (load_cogs D filenames) k m2),
      SetTreeOnError # ListDir ''./cogs'' # events_of (bnd (load_cogs D filenames) k m2))"
  unfolding extensions_stage_def k
  by (simp add: bnd_emit bnd_call_Ret [of "listdir D ''./cogs''" m1 filenames m2, OF listing])

lemma after_load_no_names:
  "loaded_names (events_of (bnd (emit (Log INFO s)) (\<lambda>_.
          bnd (call TreeSync (tree_sync D)) (\<lambda>slash. emit (Log INFO (t slash)))) m)) = []"
proof -
  obtain r m1 where synced: "tree_sync D m = (r, m1)"
    by (cases "tree_sync D m")
  show ?thesis
    by (cases r) (simp_all add: bnd_emit events_bnd events_call outcome_call machine_call synced
        emit_def)
qed

subsection \<open>Loading the extensions\<close>

lemma load_cogs_returns:
  assumes loads: "\<forall>f \<in> set fs. endswith f ''.py'' \<longrightarrow>
      (\<forall>m'. fst (load_extension D (extension_name f) m') = Ret ())"
  shows "load_cogs D fs m =
     (Ret (),
      foldl (\<lambda>m' n. snd (load_extension D n m')) m
        (map extension_name (filter (\<lambda>f. endswith f ''.py'') fs)),
      map LoadExtension (map extension_name (filter (\<lambda>f. endswith f ''.py'') fs)))"
  using loads
proof (induction fs arbitrary: m)
  case Nil
  show ?case by (simp add: ret_def)
next
  case (Cons f fs)
  have rest: "\<forall>g \<in> set fs. endswith g ''.py'' \<longrightarrow>
      (\<forall>m'. fst (load_extension D (extension_name g) m') = Ret ())"
    using Cons.prems by simp
  show ?case
  proof (cases "endswith f ''.py''")
    case False
    then show ?thesis
      using Cons.IH [OF rest, of m] by (simp add: bnd_ret_left)
  next
    case True
    let ?m1 = "snd (load_extension D (extension_name f) m)"
    have "fst (load_extension D (extension_name f) m) = Ret ()"
      using Cons.prems True by simp
    then have returned: "load_extension D (extension_name f) m = (Ret (), ?m1)"
      by (simp add: prod_eq_iff)
    show ?thesis
      using Cons.IH [OF rest, of ?m1] True
      by (simp add: bnd_call_Ret [of "load_extension D (extension_name f)" m "()" ?m1,
            OF returned])
  qed
qed

lemma after_load_events:
  "events_of (bnd (emit (Log INFO s)) (\<lambda>_.
          bnd (call TreeSync (tree_sync D)) (\<lambda>slash. emit (Log INFO (t slash)))) m) =
     Log INFO s # TreeSync #
     (case fst (tree_sync D m) of Ret slash \<Rightarrow> [Log INFO (t slash)] | _ \<Rightarrow> [])"
proof -
  obtain r m1 where synced: "tree_sync D m = (r, m1)"
    by (cases "tree_sync D m")
  show ?thesis
    by (cases r) (simp_all add: bnd_emit events_bnd events_call outcome_call machine_call synced
        emit_def)
qed

text \<open>
  C10. The extensions \<open>on_ready\<close> loads are exactly the entries of the listing of \<open>./cogs\<close>
  whose names end in \<open>.py\<close>, in the order of the listing, each under the name \<open>cogs.\<close>
  followed by the entry's name without its last three characters; every other entry is
  passed over. With \<open>bot.load_extension\<close> returning for these names, the loop calls it
  once for each of them and for nothing else, each call in the state the one before left,
  and \<open>on_ready\<close> goes on to the \<open>is online\<close> message and the synchronisation.
\<close>

theorem extensions_loaded_from_listing:
  fixes D :: "'r deps" and filenames names :: "string list" and m2 m3 :: machine
  defines "names \<equiv>
      map (\<lambda>f. ''cogs.'' @ take (length f - 3) f) (filter (suffix ''.py'') filenames)"
    and "m3 \<equiv> foldl (\<lambda>m' n. snd (load_extension D n m')) m2 names"
  assumes reach: "boot_to_extensions D cfg m = (Ret (), m1, es1)"
    and listing: "listdir D ''./cogs'' m1 = (Ret filenames, m2)"
    and loads: "\<forall>n \<in> set names. \<forall>m'. fst (load_extension D n m') = Ret ()"
  shows "load_cogs D filenames m2 = (Ret (), m3, map LoadExtension names)
       \<and> events_of (on_ready D cfg m) =
           es1 @ [SetTreeOnError, ListDir ''./cogs''] @ map LoadExtension names @
           [Log INFO (bot_user D @ '' is online''), TreeSync] @
           (case fst (tree_sync D m3) of
              Ret slash \<Rightarrow>
                [Log INFO (''synced '' @ str_nat (length slash) @ '' slash commands'')]
            | _ \<Rightarrow> [])
       \<and> machine_of (on_ready D cfg m) = snd (tree_sync D m3)"
proof -
  let ?k = "\<lambda>_::unit. bnd (emit (Log INFO (bot_user D @ '' is online''))) (\<lambda>_.
          bnd (call TreeSync (tree_sync D)) (\<lambda>slash.
          emit (Log INFO (''synced '' @ str_nat (length slash) @ '' slash commands''))))
        :: ('r, unit) act"
  have names: "names = map extension_name (filter (\<lambda>f. endswith f ''.py'') filenames)"
    by (simp add: names_def extension_name_def drop_last3_def endswith_suffix)
  have "\<forall>f \<in> set filenames. endswith f ''.py'' \<longrightarrow>
      (\<forall>m'. fst (load_extension D (extension_name f) m') = Ret ())"
    using loads by (simp add: names)
  then have loop: "load_cogs D filenames m2 = (Ret (), m3, map LoadExtension names)"
    unfolding m3_def names by (rule load_cogs_returns)
  have run: "on_ready D cfg m =
      (outcome_of (?k () m3), machine_of (?k () m3),
       es1 @ SetTreeOnError # ListDir ''./cogs'' # map LoadExtension names @ events_of (?k () m3))"
    by (simp add: on_ready_from_extensions bnd_Ret [of "boot_to_extensions D cfg", OF reach]
        extensions_stage_listed [OF listing refl] bnd_Ret [of "load_cogs D filenames", OF loop])
  obtain r m4 where synced: "tree_sync D m3 = (r, m4)"
    by (cases "tree_sync D m3")
  show ?thesis
    by (cases r) (simp_all add: loop run synced bnd_emit bnd_def call_def emit_def)
qed

lemmas demo_defs = demo_deps_def demo_machine_def demo_store_def demo_configs_def

lemmas boot_defs = boot_to_env_def boot_to_configs_def boot_to_db_def boot_to_extensions_def

theorem extensions_loaded_from_listing_witness:
  "boot_to_extensions (demo_deps True True [] [''a.py'', ''notes.md'', ''__pycache__'', ''b.py''] [])
     (demo_configs True) (demo_machine demo_store) =
     (Ret (), demo_machine demo_store,
      [CheckUpgrade, CheckEnv, CheckConfigs, CheckDb, Log INFO msg_passed, UpdatePresence])
   \<and> listdir (demo_deps True True [] [''a.py'', ''notes.md'', ''__pycache__'', ''b.py''] []) ''./cogs''
       (demo_machine demo_store) =
     (Ret [''a.py'', ''notes.md'', ''__pycache__'', ''b.py''], demo_machine demo_store)
   \<and> load_extension (demo_deps True True [] [''a.py'', ''notes.md'', ''__pycache__'', ''b.py''] [])
       ''cogs.a'' (demo_machine demo_store) = (Ret (), demo_machine demo_store)
   \<and> load_extension (demo_deps True True [] [''a.py'', ''notes.md'', ''__pycache__'', ''b.py''] [])
       ''cogs.b'' (demo_machine demo_store) = (Ret (), demo_machine demo_store)
   \<and> load_cogs (demo_deps True True [] [''a.py'', ''notes.md'', ''__pycache__'', ''b.py''] [])
       [''a.py'', ''notes.md'', ''__pycache__'', ''b.py''] (demo_machine demo_store) =
     (Ret (), demo_machine demo_store, [LoadExtension ''cogs.a'', LoadExtension ''cogs.b''])
   \<and> events_of (on_ready
       (demo_deps True True [] [''a.py'', ''notes.md'', ''__pycache__'', ''b.py''] [])
       (demo_configs True) (demo_machine demo_store)) =
     [CheckUpgrade, CheckEnv, CheckConfigs, CheckDb, Log INFO msg_passed, UpdatePresence,
      SetTreeOnError, ListDir ''./cogs'', LoadExtension ''cogs.a'', LoadExtension ''cogs.b'',
      Log INFO ''Tweetcord#0001 is online'', TreeSync, Log INFO ''synced 3 slash commands'']
   \<and> machine_of (on_ready
       (demo_deps True True [] [''a.py'', ''notes.md'', ''__pycache__'', ''b.py''] [])
       (demo_configs True) (demo_machine demo_store)) = demo_machine demo_store"
proof -
  let ?fs = "[''a.py'', ''notes.md'', ''__pycache__'', ''b.py'']"
  let ?D = "demo_deps True True [] ?fs []"
  have reach: "boot_to_extensions ?D (demo_configs True) (demo_machine demo_store) =
     (Ret (), demo_machine demo_store,
      [CheckUpgrade, CheckEnv, CheckConfigs, CheckDb, Log INFO msg_passed, UpdatePresence])"
    by (simp add: boot_defs run_defs demo_defs)
  have listing: "listdir ?D ''./cogs'' (demo_machine demo_store) = (Ret ?fs, demo_machine demo_store)"
    by (simp add: demo_deps_def)
  have every: "load_extension ?D n m' = (Ret (), m')" for n m'
    by (simp add: demo_deps_def)
  have loads: "\<forall>n \<in> set (map (\<lambda>f. ''cogs.'' @ take (length f - 3) f)
      (filter (suffix ''.py'') ?fs)). \<forall>m'. fst (load_extension ?D n m') = Ret ()"
    by (simp add: every)
  have names: "map (\<lambda>f. ''cogs.'' @ take (length f - 3) f) (filter (suffix ''.py'') ?fs) =
      [''cogs.a'', ''cogs.b'']"
    by (simp add: endswith_suffix [symmetric] endswith_def)
  have synced: "tree_sync ?D m' = (Ret [''sync'', ''add'', ''remove''], m')"
    and user: "bot_user ?D = ''Tweetcord#0001''" for m'
    by (simp_all add: demo_deps_def)
  show ?thesis
    using extensions_loaded_from_listing [OF reach listing loads, unfolded names]
    by (simp add: every synced user str_nat_3 reach listing del: load_cogs.simps)
qed

lemma load_cogs_first_failure:
  assumes earlier: "load_cogs D before m2 = (Ret (), m3, es3)"
    and py: "endswith fname ''.py''"
    and fails: "load_extension D (extension_name fname) m3 = (Raise e, m4)"
  shows "bnd (load_cogs D (before @ fname # rest)) k m2 =
     (Raise e, m4, es3 @ [LoadExtension (extension_name fname)])"
proof -
  have "load_cogs D (fname # rest) m3 = (Raise e, m4, [LoadExtension (extension_name fname)])"
    using py by (simp add: bnd_def call_def fails)
  then have "load_cogs D (before @ fname # rest) m2 =
      (Raise e, m4, es3 @ [LoadExtension (extension_name fname)])"
    by (simp add: load_cogs_append bnd_Ret [of "load_cogs D before", OF earlier])
  then show ?thesis
    by (rule bnd_Raise)
qed

text \<open>
  C1, as the code has it. The extensions are loaded one after the other, and a load that
  raises ends \<open>on_ready\<close> with that exception: the entries after it in the listing are not
  loaded, and neither the \<open>is online\<close> message nor the synchronisation of the commands
  follows.
\<close>

theorem load_failure_ends_startup:
  assumes reach: "boot_to_extensions D cfg m = (Ret (), m1, es1)"
    and listing: "listdir D ''./cogs'' m1 = (Ret (before @ fname # rest), m2)"
    and earlier: "load_cogs D before m2 = (Ret (), m3, es3)"
    and py: "endswith fname ''.py''"
    and fails: "load_extension D (extension_name fname) m3 = (Raise e, m4)"
  shows "on_ready D cfg m =
           (Raise e, m4,
            es1 @ [SetTreeOnError, ListDir ''./cogs''] @ es3 @
            [LoadExtension (extension_name fname)])
       \<and> loaded_names (events_of (on_ready D cfg m)) =
           map extension_name (filter (\<lambda>f. endswith f ''.py'') before) @
           [extension_name fname]"
proof -
  have stage: "extensions_stage D m1 =
      (Raise e, m4,
       SetTreeOnError # ListDir ''./cogs'' # es3 @ [LoadExtension (extension_name fname)])"
    by (simp add: extensions_stage_listed [OF listing refl]
        load_cogs_first_failure [OF earlier py fails])
  have run: "on_ready D cfg m =
      (Raise e, m4,
       es1 @ [SetTreeOnError, ListDir ''./cogs''] @ es3 @
       [LoadExtension (extension_name fname)])"
    by (simp add: on_ready_from_extensions bnd_Ret [of "boot_to_extensions D cfg", OF reach] stage)
  have "never (LoadExtension n) (boot_to_extensions D cfg)" for n
    by (rule never_load_before_extensions)
  then have "LoadExtension n \<notin> set es1" for n
    using reach by (rule never_events)
  then have before: "loaded_names es1 = []"
    by (rule loaded_names_none)
  have "loaded_names (events_of (load_cogs D before m2)) =
      map extension_name (filter (\<lambda>f. endswith f ''.py'') before)"
    by (rule load_cogs_names_all) (simp add: earlier)
  then have "loaded_names es3 = map extension_name (filter (\<lambda>f. endswith f ''.py'') before)"
    by (simp add: earlier)
  then show ?thesis
    by (simp add: run before)
qed

theorem load_failure_ends_startup_witness:
  "boot_to_extensions (demo_deps True True [] [''a.py'', ''b.py'', ''c.py''] [''cogs.b''])
     (demo_configs True) (demo_machine demo_store) =
     (Ret (), demo_machine demo_store,
      [CheckUpgrade, CheckEnv, CheckConfigs, CheckDb, Log INFO msg_passed, UpdatePresence])
   \<and> listdir (demo_deps True True [] [''a.py'', ''b.py'', ''c.py''] [''cogs.b'']) ''./cogs''
       (demo_machine demo_store) = (Ret ([''a.py''] @ ''b.py'' # [''c.py'']), demo_machine demo_store)
   \<and> load_cogs (demo_deps True True [] [''a.py'', ''b.py'', ''c.py''] [''cogs.b'']) [''a.py'']
       (demo_machine demo_store) = (Ret (), demo_machine demo_store, [LoadExtension ''cogs.a''])
   \<and> endswith ''b.py'' ''.py''
   \<and> load_extension (demo_deps True True [] [''a.py'', ''b.py'', ''c.py''] [''cogs.b''])
       (extension_name ''b.py'') (demo_machine demo_store) =
     (Raise (External ''cogs.b''), demo_machine demo_store)
   \<and> on_ready (demo_deps True True [] [''a.py'', ''b.py'', ''c.py''] [''cogs.b''])
       (demo_configs True) (demo_machine demo_store) =
     (Raise (External ''cogs.b''), demo_machine demo_store,
      [CheckUpgrade, CheckEnv, CheckConfigs, CheckDb, Log INFO msg_passed, UpdatePresence,
       SetTreeOnError, ListDir ''./cogs'', LoadExtension ''cogs.a'', LoadExtension ''cogs.b''])
   \<and> loaded_names (events_of (on_ready
       (demo_deps True True [] [''a.py'', ''b.py'', ''c.py''] [''cogs.b''])
       (demo_configs True) (demo_machine demo_store))) = [''cogs.a'', ''cogs.b'']"
proof -
  let ?D = "demo_deps True True [] [''a.py'', ''b.py'', ''c.py''] [''cogs.b'']"
  have reach: "boot_to_extensions ?D (demo_configs True) (demo_machine demo_store) =
     (Ret (), demo_machine demo_store,
      [CheckUpgrade, CheckEnv, CheckConfigs, CheckDb, Log INFO msg_passed, UpdatePresence])"
    by (simp add: boot_defs run_defs demo_defs)
  have listing: "listdir ?D ''./cogs'' (demo_machine demo_store) =
      (Ret ([''a.py''] @ ''b.py'' # [''c.py'']), demo_machine demo_store)"
    by (simp add: demo_deps_def)
  have name_a: "extension_name ''a.py'' = ''cogs.a''" and name_b: "extension_name ''b.py'' = ''cogs.b''"
    by (simp_all add: extension_name_def drop_last3_def)
  have py_a: "endswith ''a.py'' ''.py''" and py: "endswith ''b.py'' ''.py''"
    by (simp_all add: endswith_def)
  have earlier: "load_cogs ?D [''a.py''] (demo_machine demo_store) =
      (Ret (), demo_machine demo_store, [LoadExtension ''cogs.a''])"
    by (simp add: py_a name_a bnd_def call_def ret_def demo_deps_def)
  have fails: "load_extension ?D (extension_name ''b.py'') (demo_machine demo_store) =
      (Raise (External ''cogs.b''), demo_machine demo_store)"
    by (simp add: name_b demo_deps_def)
  show ?thesis
    using load_failure_ends_startup [OF reach listing earlier py fails]
      reach listing earlier py fails
    by (simp add: py_a name_a name_b)
qed

text \<open>
  C1 as stated fails: of three extensions the second fails to load; the third, which would
  load, is never tried, and \<open>on_ready\<close> ends with the exception before \<open>bot.tree.sync\<close>.
\<close>

theorem load_failure_not_isolated:
  "listdir (demo_deps True True [] [''a.py'', ''b.py'', ''c.py''] [''cogs.b'']) ''./cogs''
       (demo_machine demo_store) = (Ret [''a.py'', ''b.py'', ''c.py''], demo_machine demo_store)
   \<and> fst (load_extension (demo_deps True True [] [''a.py'', ''b.py'', ''c.py''] [''cogs.b''])
       ''cogs.c'' (demo_machine demo_store)) = Ret ()
   \<and> on_ready (demo_deps True True [] [''a.py'', ''b.py'', ''c.py''] [''cogs.b''])
       (demo_configs True) (demo_machine demo_store) =
     (Raise (External ''cogs.b''), demo_machine demo_store,
      [CheckUpgrade, CheckEnv, CheckConfigs, CheckDb, Log INFO msg_passed, UpdatePresence,
       SetTreeOnError, ListDir ''./cogs'', LoadExtension ''cogs.a'', LoadExtension ''cogs.b''])
   \<and> LoadExtension ''cogs.c'' \<notin> set (events_of (on_ready
       (demo_deps True True [] [''a.py'', ''b.py'', ''c.py''] [''cogs.b''])
       (demo_configs True) (demo_machine demo_store)))
   \<and> TreeSync \<notin> set (events_of (on_ready
       (demo_deps True True [] [''a.py'', ''b.py'', ''c.py''] [''cogs.b''])
       (demo_configs True) (demo_machine demo_store)))"
proof -
  have run: "on_ready (demo_deps True True [] [''a.py'', ''b.py'', ''c.py''] [''cogs.b''])
       (demo_configs True) (demo_machine demo_store) =
     (Raise (External ''cogs.b''), demo_machine demo_store,
      [CheckUpgrade, CheckEnv, CheckConfigs, CheckDb, Log INFO msg_passed, UpdatePresence,
       SetTreeOnError, ListDir ''./cogs'', LoadExtension ''cogs.a'', LoadExtension ''cogs.b''])"
    by (simp add: run_defs demo_defs endswith_def extension_name_def drop_last3_def)
  show ?thesis
    by (simp add: run) (simp add: demo_deps_def)
qed

lemma page_says_running: "sublist ''Bot is running!'' html_content"
  by code_simp

lemma page_not_starting: "\<not> sublist ''starting'' html_content"
  by code_simp

lemma page_not_operational: "\<not> sublist ''operational'' html_content"
  by code_simp

subsection \<open>The status page\<close>

text \<open>
  C3, as the code has it. For every request and in every state, \<open>handle_web\<close> answers with
  the same page, of content type \<open>text/html\<close>, and changes nothing. The page says
  \<open>Bot is running!\<close>; it says neither \<open>starting\<close> nor \<open>operational\<close>.
\<close>

theorem status_page_is_fixed:
  "handle_web request m =
     (Ret \<lparr>resp_text = html_content, content_type = ''text/html''\<rparr>, m, [])
   \<and> sublist ''Bot is running!'' html_content
   \<and> \<not> sublist ''starting'' html_content
   \<and> \<not> sublist ''operational'' html_content"
  by (simp add: handle_web_def ret_def page_says_running page_not_starting page_not_operational)

text \<open>
  C3 as stated fails: a request served before \<open>on_ready\<close> has run and a request served in
  the state \<open>on_ready\<close> leaves when it has completed get the same page, and the page reports
  neither \<open>starting\<close> nor \<open>operational\<close>.
\<close>

theorem status_page_ignores_readiness:
  "outcome_of (on_ready (demo_deps True True [] [''a.py''] []) (demo_configs True)
      (demo_machine Map.empty)) = Ret ()
   \<and> machine_of (on_ready (demo_deps True True [] [''a.py''] []) (demo_configs True)
      (demo_machine Map.empty)) \<noteq> demo_machine Map.empty
   \<and> outcome_of (handle_web demo_request (demo_machine Map.empty)) =
       Ret \<lparr>resp_text = html_content, content_type = ''text/html''\<rparr>
   \<and> outcome_of (handle_web demo_request (machine_of (on_ready
        (demo_deps True True [] [''a.py''] []) (demo_configs True) (demo_machine Map.empty)))) =
       Ret \<lparr>resp_text = html_content, content_type = ''text/html''\<rparr>
   \<and> \<not> sublist ''starting'' html_content
   \<and> \<not> sublist ''operational'' html_content"
proof -
  have run: "on_ready (demo_deps True True [] [''a.py''] []) (demo_configs True)
      (demo_machine Map.empty) =
      (Ret (), (demo_machine Map.empty)\<lparr>files := [''/data/tracked_accounts.db'' \<mapsto> []]\<rparr>,
       [InitDb, CheckUpgrade, CheckEnv, CheckConfigs, CheckDb, Log INFO msg_passed,
        UpdatePresence, SetTreeOnError, ListDir ''./cogs'', LoadExtension ''cogs.a'',
        Log INFO ''Tweetcord#0001 is online'', TreeSync, Log INFO ''synced 3 slash commands''])"
    by (simp add: run_defs demo_defs endswith_def extension_name_def drop_last3_def str_nat_3)
  have changed: "(demo_machine Map.empty)\<lparr>files := [''/data/tracked_accounts.db'' \<mapsto> []]\<rparr> \<noteq>
      demo_machine Map.empty"
  proof
    assume "(demo_machine Map.empty)\<lparr>files := [''/data/tracked_accounts.db'' \<mapsto> []]\<rparr> =
      demo_machine Map.empty"
    then have "files ((demo_machine Map.empty)\<lparr>files := [''/data/tracked_accounts.db'' \<mapsto> []]\<rparr>)
        ''/data/tracked_accounts.db'' = files (demo_machine Map.empty) ''/data/tracked_accounts.db''"
      by simp
    then show False
      by (simp add: demo_machine_def)
  qed
  show ?thesis
    by (simp add: run changed handle_web_def ret_def page_not_starting page_not_operational)
qed

lemma try_finally_exits:
  assumes body: "body m = (r, m1, es1)"
    and exits: "r = Ret x \<or> r = Raise e"
  shows "try_finally body fin m =
     (case outcome_of (fin m1) of Ret u \<Rightarrow> r | Raise e' \<Rightarrow> Raise e' | Exec p a \<Rightarrow> Exec p a,
      machine_of (fin m1), es1 @ events_of (fin m1))"
proof -
  obtain r2 m2 es2 where fin: "fin m1 = (r2, m2, es2)"
    by (cases "fin m1")
  show ?thesis
    using exits by (cases r2) (auto simp: try_finally_def body fin)
qed

subsection \<open>The supervisor\<close>

text \<open>
  C6. In every run of \<open>main\<close> in which the web server was started, and the bot task then
  returns or raises, \<open>runner.cleanup\<close> is called after everything the bot task did, as the
  last thing \<open>main\<close> does; when the cleanup returns, \<open>main\<close> ends as the bot task ended.
\<close>

theorem main_releases_listener:
  assumes started: "start_web_server S m = (Ret runner, m1, es1)"
    and bot: "run_bot S m1 = (r, m2, es2)"
    and exits: "r = Ret () \<or> r = Raise e"
  shows "main S m =
     (case fst (runner_cleanup S runner m2) of
        Ret u \<Rightarrow> r | Raise e' \<Rightarrow> Raise e' | Exec p a \<Rightarrow> Exec p a,
      snd (runner_cleanup S runner m2),
      es1 @ es2 @ [RunnerCleanup])"
  by (simp add: main_def bnd_Ret [of "start_web_server S", OF started]
      try_finally_exits [of "run_bot S", OF bot exits] events_call outcome_call machine_call)

lemma str_int_10000: "str_int 10000 = ''10000''"
  by (simp add: str_int_def str_nat.simps digit_def)

lemmas supervisor_defs =
  start_web_server_def get_port_def run_bot_def try_finally_def
  bnd_def call_def ret_def raise_def emit_def

theorem main_releases_listener_witness:
  "start_web_server (demo_supervisor (Ret ())) (demo_machine demo_store) =
     (Ret AppRunner, demo_machine demo_store,
      [AddGet ''/'', RunnerSetup, SiteStart ''0.0.0.0'' 10000,
       Log INFO ''Web server started and bound to port 10000'' :: unit event])
   \<and> run_bot (demo_supervisor (Ret ())) (demo_machine demo_store) =
     (Ret (), demo_machine demo_store,
      [SetupLogging, BotEnter, BotStart None, BotExit :: unit event])
   \<and> events_of (main (demo_supervisor (Ret ())) (demo_machine demo_store)) =
     [AddGet ''/'', RunnerSetup, SiteStart ''0.0.0.0'' 10000,
      Log INFO ''Web server started and bound to port 10000'',
      SetupLogging, BotEnter, BotStart None, BotExit, RunnerCleanup :: unit event]
   \<and> outcome_of (main (demo_supervisor (Ret ())) (demo_machine demo_store)
       :: unit outcome \<times> machine \<times> unit event list) = Ret ()
   \<and> run_bot (demo_supervisor (Raise (External ''LoginFailure''))) (demo_machine demo_store) =
     (Raise (External ''LoginFailure''), demo_machine demo_store,
      [SetupLogging, BotEnter, BotStart None, BotExit :: unit event])
   \<and> events_of (main (demo_supervisor (Raise (External ''LoginFailure'')))
       (demo_machine demo_store)) =
     [AddGet ''/'', RunnerSetup, SiteStart ''0.0.0.0'' 10000,
      Log INFO ''Web server started and bound to port 10000'',
      SetupLogging, BotEnter, BotStart None, BotExit, RunnerCleanup :: unit event]
   \<and> outcome_of (main (demo_supervisor (Raise (External ''LoginFailure'')))
       (demo_machine demo_store) :: unit outcome \<times> machine \<times> unit event list) =
     Raise (External ''LoginFailure'')"
proof -
  let ?m = "demo_machine demo_store"
  let ?web = "[AddGet ''/'', RunnerSetup, SiteStart ''0.0.0.0'' 10000,
      Log INFO ''Web server started and bound to port 10000'' :: unit event]"
  let ?bot = "[SetupLogging, BotEnter, BotStart None, BotExit :: unit event]"
  have started: "start_web_server (demo_supervisor b) ?m = (Ret AppRunner, ?m, ?web)" for b
    by (simp add: supervisor_defs demo_supervisor_def demo_machine_def str_int_10000)
  have returned: "run_bot (demo_supervisor (Ret ())) ?m = (Ret (), ?m, ?bot)"
    by (simp add: supervisor_defs demo_supervisor_def demo_machine_def)
  have raised: "run_bot (demo_supervisor (Raise (External ''LoginFailure''))) ?m =
      (Raise (External ''LoginFailure''), ?m, ?bot)"
    by (simp add: supervisor_defs demo_supervisor_def demo_machine_def)
  have cleanup: "runner_cleanup (demo_supervisor b) AppRunner ?m = (Ret (), ?m)" for b
    by (simp add: demo_supervisor_def)
  have quiet: "main (demo_supervisor (Ret ())) ?m = (Ret (), ?m, ?web @ ?bot @ [RunnerCleanup])"
    using main_releases_listener [OF started returned, of IndexError] by (simp add: cleanup)
  have loud: "main (demo_supervisor (Raise (External ''LoginFailure''))) ?m =
      (Raise (External ''LoginFailure''), ?m, ?web @ ?bot @ [RunnerCleanup])"
    using main_releases_listener [OF started raised, of "External ''LoginFailure''"]
    by (simp add: cleanup)
  show ?thesis
    by (simp add: quiet loud started returned raised)
qed

lemma last3_suffix: "(last3 s = ''.db'') = suffix ''.db'' s"
proof
  assume tail: "last3 s = ''.db''"
  have "s = take (length s - 3) s @ last3 s"
    by (simp add: last3_def)
  then show "suffix ''.db'' s"
    unfolding tail by (rule suffixI)
next
  assume "suffix ''.db'' s"
  then obtain pre where "s = pre @ ''.db''"
    by (auto simp: suffix_def)
  then show "last3 s = ''.db''"
    by (simp add: last3_def)
qed

lemma send_machine: "machine_of (bnd (send ctx s) (\<lambda>message. delete_after ctx message d) m) = m"
  by (simp add: bnd_def send_def delete_after_def split: sum.splits option.splits)

lemma send_events:
  "\<exists>es. events_of (bnd (send ctx s) (\<lambda>message. delete_after ctx message d) m) = Send s # es"
  by (simp add: bnd_def send_def delete_after_def split: sum.splits option.splits)

subsection \<open>The upload command\<close>

text \<open>
  C9. When no attachment of the invoking message has a file name ending in \<open>.db\<close>,
  \<open>upload_data\<close> raises \<open>IndexError\<close> and has done nothing: no file is written. When there
  are such attachments, the first of them is read, and (its content read, \<open>DATA_PATH\<close> set
  and the store file writable) the store file then holds exactly the bytes read, whatever
  it held before; no other file changes.
\<close>

theorem upload_data_replaces_store:
  "(filter (\<lambda>a. suffix ''.db'' (filename a)) (attachments ctx) = [] \<longrightarrow>
      (upload_data ctx m :: unit outcome \<times> machine \<times> 'r event list) =
        (Raise IndexError, m, []))
   \<and> (filter (\<lambda>a. suffix ''.db'' (filename a)) (attachments ctx) = first # others \<and>
       content first = Inr raw \<and> environ m ''DATA_PATH'' = Some d \<and>
       path_join d ''tracked_accounts.db'' \<notin> unwritable m \<longrightarrow>
      (\<exists>r es. (upload_data ctx m :: unit outcome \<times> machine \<times> 'r event list) =
         (r, m\<lparr>files := (files m)(path_join d ''tracked_accounts.db'' \<mapsto> raw)\<rparr>,
          AttachmentRead (filename first) # FileWrite (path_join d ''tracked_accounts.db'') #
          Send msg_uploaded # es)))"
proof (intro conjI impI)
  assume "filter (\<lambda>a. suffix ''.db'' (filename a)) (attachments ctx) = []"
  then show "(upload_data ctx m :: unit outcome \<times> machine \<times> 'r event list) =
      (Raise IndexError, m, [])"
    by (simp add: upload_data_def last3_suffix bnd_def raise_def)
next
  let ?p = "path_join d ''tracked_accounts.db''"
  let ?m = "m\<lparr>files := (files m)(?p \<mapsto> raw)\<rparr>"
  let ?tail = "bnd (send ctx msg_uploaded) (\<lambda>message. delete_after ctx message 5)
    :: ('r, unit) act"
  assume given: "filter (\<lambda>a. suffix ''.db'' (filename a)) (attachments ctx) = first # others \<and>
       content first = Inr raw \<and> environ m ''DATA_PATH'' = Some d \<and> ?p \<notin> unwritable m"
  have run: "upload_data ctx m =
      (outcome_of (?tail ?m), machine_of (?tail ?m),
       AttachmentRead (filename first) # FileWrite ?p # events_of (?tail ?m))"
    using given
    by (simp add: upload_data_def last3_suffix read_attachment_def store_path_def write_file_def
        ret_def bnd_Ret [of _ m raw m "[AttachmentRead (filename first)]"]
        bnd_Ret [of _ m ?p m "[]"] bnd_Ret [of _ m "()" ?m "[FileWrite ?p]"])
  obtain es where "events_of (?tail ?m) = Send msg_uploaded # es"
    using send_events [of ctx msg_uploaded 5 ?m] by blast
  then show "\<exists>r es. (upload_data ctx m :: unit outcome \<times> machine \<times> 'r event list) =
      (r, ?m, AttachmentRead (filename first) # FileWrite ?p # Send msg_uploaded # es)"
    by (simp add: run send_machine)
qed

theorem upload_data_replaces_store_witness:
  "filter (\<lambda>a. suffix ''.db'' (filename a)) (attachments (demo_context demo_attachments)) =
     \<lparr>filename = ''backup.db'', content = Inr [83, 81, 76]\<rparr> #
     [\<lparr>filename = ''older.db'', content = Inr [0]\<rparr>]
   \<and> environ (demo_machine demo_store) ''DATA_PATH'' = Some ''/data''
   \<and> path_join ''/data'' ''tracked_accounts.db'' \<notin> unwritable (demo_machine demo_store)
   \<and> (\<exists>r es. (upload_data (demo_context demo_attachments) (demo_machine demo_store)
         :: unit outcome \<times> machine \<times> unit event list) =
       (r, (demo_machine demo_store)\<lparr>files :=
              (files (demo_machine demo_store))(''/data/tracked_accounts.db'' \<mapsto> [83, 81, 76])\<rparr>,
        AttachmentRead ''backup.db'' # FileWrite ''/data/tracked_accounts.db'' #
        Send msg_uploaded # es))
   \<and> filter (\<lambda>a. suffix ''.db'' (filename a))
       (attachments (demo_context [\<lparr>filename = ''notes.txt'', content = Inr [104, 105]\<rparr>])) = []
   \<and> (upload_data (demo_context [\<lparr>filename = ''notes.txt'', content = Inr [104, 105]\<rparr>])
       (demo_machine demo_store) :: unit outcome \<times> machine \<times> unit event list) =
     (Raise IndexError, demo_machine demo_store, [])"
proof -
  let ?first = "\<lparr>filename = ''backup.db'', content = Inr [83, 81, 76]\<rparr>"
  let ?others = "[\<lparr>filename = ''older.db'', content = Inr [0]\<rparr>]"
  let ?plain = "demo_context [\<lparr>filename = ''notes.txt'', content = Inr [104, 105]\<rparr>]"
  have found: "filter (\<lambda>a. suffix ''.db'' (filename a)) (attachments (demo_context demo_attachments)) =
      ?first # ?others"
    by (simp add: demo_context_def demo_attachments_def last3_suffix [symmetric] last3_def)
  have none: "filter (\<lambda>a. suffix ''.db'' (filename a)) (attachments ?plain) = []"
    by (simp add: demo_context_def last3_suffix [symmetric] last3_def)
  have data_path: "environ (demo_machine demo_store) ''DATA_PATH'' = Some ''/data''"
    and writable: "path_join ''/data'' ''tracked_accounts.db'' \<notin> unwritable (demo_machine demo_store)"
    and path: "path_join ''/data'' ''tracked_accounts.db'' = ''/data/tracked_accounts.db''"
    by (simp_all add: demo_machine_def path_join_def)
  have "\<exists>r es. (upload_data (demo_context demo_attachments) (demo_machine demo_store)
         :: unit outcome \<times> machine \<times> unit event list) =
       (r, (demo_machine demo_store)\<lparr>files :=
              (files (demo_machine demo_store))(''/data/tracked_accounts.db'' \<mapsto> [83, 81, 76])\<rparr>,
        AttachmentRead ''backup.db'' # FileWrite ''/data/tracked_accounts.db'' #
        Send msg_uploaded # es)"
    using upload_data_replaces_store [of "demo_context demo_attachments" "demo_machine demo_store"
        ?first ?others "[83, 81, 76]" "''/data''", where ?'r = unit] found data_path writable
    by (simp add: path)
  moreover have "(upload_data ?plain (demo_machine demo_store)
      :: unit outcome \<times> machine \<times> unit event list) =
      (Raise IndexError, demo_machine demo_store, [])"
    using upload_data_replaces_store [of ?plain "demo_machine demo_store", where ?'r = unit] none
    by blast
  ultimately show ?thesis
    using found none data_path writable by blast
qed

subsection \<open>The error handlers\<close>

text \<open>
  C8, as the code has it. \<open>on_command_error\<close> ignores a \<open>CommandNotFound\<close> error: nothing is
  sent and nothing is logged. For every other error it sends the error's message to the
  invoking channel and, when the send has returned, logs a warning that ends with the same
  message; when the send raises, nothing is logged. \<open>on_tree_error\<close> does the same for
  every error, with an ephemeral reply.
\<close>

theorem error_handlers_echo:
  "(is_command_not_found error \<longrightarrow>
      (on_command_error ctx error m :: unit outcome \<times> machine \<times> 'r event list) =
        (Ret (), m, []))
   \<and> (\<not> is_command_not_found error \<and> ctx_send ctx (str_error error) = Inr i \<longrightarrow>
      (on_command_error ctx error m :: unit outcome \<times> machine \<times> 'r event list) =
        (Ret (), m,
         [Send (str_error error), Log WARNING (msg_command_handler @ str_error error)]))
   \<and> (\<not> is_command_not_found error \<and> ctx_send ctx (str_error error) = Inl e \<longrightarrow>
      (on_command_error ctx error m :: unit outcome \<times> machine \<times> 'r event list) =
        (Raise e, m, [Send (str_error error)]))
   \<and> (send_message itn (str_app_error app_error) = None \<longrightarrow>
      (on_tree_error itn app_error m :: unit outcome \<times> machine \<times> 'r event list) =
        (Ret (), m,
         [SendEphemeral (str_app_error app_error),
          Log WARNING (msg_tree_handler @ str_app_error app_error)]))
   \<and> (send_message itn (str_app_error app_error) = Some e' \<longrightarrow>
      (on_tree_error itn app_error m :: unit outcome \<times> machine \<times> 'r event list) =
        (Raise e', m, [SendEphemeral (str_app_error app_error)]))"
  by (simp add: on_command_error_def on_tree_error_def send_def respond_def bnd_def emit_def
      ret_def)

theorem error_handlers_echo_witness:
  "on_command_error (demo_context []) (CommandError ''You do not own this bot.'')
       (demo_machine demo_store) =
     (Ret (), demo_machine demo_store,
      [Send ''You do not own this bot.'',
       Log WARNING (msg_command_handler @ ''You do not own this bot.'') :: unit event])
   \<and> on_command_error \<lparr>attachments = [], ctx_send = (\<lambda>s. Inl (External ''Forbidden'')),
         msg_delete = (\<lambda>i delay. None)\<rparr>
       (CommandError ''You do not own this bot.'') (demo_machine demo_store) =
     (Raise (External ''Forbidden''), demo_machine demo_store,
      [Send ''You do not own this bot.'' :: unit event])
   \<and> on_command_error (demo_context []) (CommandNotFound ''Command is not found'')
       (demo_machine demo_store) =
     (Ret (), demo_machine demo_store, [] :: unit event list)
   \<and> on_tree_error demo_interaction (AppCommandError ''No account is tracked.'')
       (demo_machine demo_store) =
     (Ret (), demo_machine demo_store,
      [SendEphemeral ''No account is tracked.'',
       Log WARNING (msg_tree_handler @ ''No account is tracked.'') :: unit event])
   \<and> on_tree_error \<lparr>send_message = (\<lambda>s. Some (External ''InteractionResponded''))\<rparr>
       (AppCommandError ''No account is tracked.'') (demo_machine demo_store) =
     (Raise (External ''InteractionResponded''), demo_machine demo_store,
      [SendEphemeral ''No account is tracked.'' :: unit event])"
proof -
  let ?refusing = "\<lparr>attachments = [], ctx_send = (\<lambda>s. Inl (External ''Forbidden'')),
         msg_delete = (\<lambda>i delay. None)\<rparr>"
  let ?answered = "\<lparr>send_message = (\<lambda>s. Some (External ''InteractionResponded''))\<rparr>"
  let ?m = "demo_machine demo_store"
  have sent: "ctx_send (demo_context []) s = Inr 7" for s
    by (simp add: demo_context_def)
  have refused: "ctx_send ?refusing s = Inl (External ''Forbidden'')" for s
    by simp
  have replied: "send_message demo_interaction s = None" for s
    by (simp add: demo_interaction_def)
  have answered: "send_message ?answered s = Some (External ''InteractionResponded'')" for s
    by simp
  show ?thesis
    using error_handlers_echo [of "CommandError ''You do not own this bot.''" "demo_context []" ?m
        7 "External ''Forbidden''" demo_interaction "AppCommandError ''No account is tracked.''"
        "External ''InteractionResponded''", where ?'r = unit]
      error_handlers_echo [of "CommandError ''You do not own this bot.''" ?refusing ?m
        7 "External ''Forbidden''" ?answered "AppCommandError ''No account is tracked.''"
        "External ''InteractionResponded''", where ?'r = unit]
      error_handlers_echo [of "CommandNotFound ''Command is not found''" "demo_context []" ?m
        7 "External ''Forbidden''" demo_interaction "AppCommandError ''No account is tracked.''"
        "External ''InteractionResponded''", where ?'r = unit]
    by (simp add: sent replied)
qed

text \<open>
  C8 as stated fails: the error of an unknown command reaches \<open>on_command_error\<close>, and the
  handler returns at once; the message is neither sent back nor logged.
\<close>

theorem command_not_found_is_dropped:
  "ctx_send (demo_context []) demo_not_found = Inr 7
   \<and> on_command_error (demo_context []) (CommandNotFound demo_not_found)
       (demo_machine demo_store) =
     (Ret (), demo_machine demo_store, [] :: unit event list)
   \<and> Send demo_not_found \<notin> set (events_of (on_command_error (demo_context [])
       (CommandNotFound demo_not_found) (demo_machine demo_store)
       :: unit outcome \<times> machine \<times> unit event list))"
  by (simp add: on_command_error_def ret_def demo_context_def)

end
